theory Spec2Isabelle
  imports Main "HOL-Library.Sublist"
begin

section \<open>Strings and characters\<close>

text \<open>
  JavaScript strings are modelled as \<^typ>\<open>string\<close>, one \<^typ>\<open>char\<close> per code unit
  (inputs in the 8-bit range). The two quote characters, the tab and the backslash
  cannot be written inside a string literal, so they are named. \<open>startsWith\<close> is
  \<^const>\<open>prefix\<close>.
\<close>

abbreviation dquote :: char where "dquote \<equiv> CHR 0x22"
abbreviation squote :: char where "squote \<equiv> CHR 0x27"
abbreviation tab :: char where "tab \<equiv> CHR 0x09"
abbreviation backslash :: char where "backslash \<equiv> CHR 0x5C"
abbreviation dollar :: char where "dollar \<equiv> CHR ''$''"

section \<open>Errors\<close>

text \<open>
  The source throws plain \<open>Error\<close> objects that differ only in their message; each
  message is a constructor. \<open>InvalidQuickCommandFormat\<close> is
  \<open>'Invalid quick command format. Expected: call <alias> <contract> <method> [args...]'\<close>,
  \<open>InvalidContractAddressFormat\<close> is \<open>'Invalid contract address format'\<close>,
  \<open>QuickCommandNotFound\<close> and \<open>ArgumentCountMismatch\<close> (name, expected, got) are the
  two errors of \<open>executeQuickCommand\<close>. \<open>UnmodelledPattern\<close> is not an error of the
  source: it marks a parameter name with a regular-expression syntax character, for
  which the source builds a \<open>RegExp\<close> that is not a literal text and which this
  embedding does not cover.
\<close>

datatype error =
    InvalidQuickCommandFormat
  | InvalidContractAddressFormat
  | QuickCommandNotFound string
  | ArgumentCountMismatch string nat nat
  | UnmodelledPattern string

section \<open>Tokenizer: \<open>WalletManager.parseCommandLine\<close>\<close>

text \<open>
  The source loops over the characters of \<open>command\<close> with four mutable variables:
  \<open>args\<close>, \<open>current\<close>, \<open>inQuotes\<close> and \<open>quoteChar\<close> (the empty string or one
  character, here \<^typ>\<open>char option\<close>). The branches are in the order of the source;
  the equation for the empty text is the code after the loop.
\<close>

fun parseCommandLine_loop ::
  "string \<Rightarrow> string list \<Rightarrow> string \<Rightarrow> bool \<Rightarrow> char option \<Rightarrow> string list" where
  "parseCommandLine_loop [] args current inQuotes quoteChar =
     (if current \<noteq> [] then args @ [current] else args)"
| "parseCommandLine_loop (char # rest) args current inQuotes quoteChar =
     (if (char = dquote \<or> char = squote) \<and> \<not> inQuotes then
        parseCommandLine_loop rest args current True (Some char)
      else if Some char = quoteChar \<and> inQuotes then
        parseCommandLine_loop rest args current False None
      else if char = CHR '' '' \<and> \<not> inQuotes then
        (if current \<noteq> [] then parseCommandLine_loop rest (args @ [current]) [] inQuotes quoteChar
         else parseCommandLine_loop rest args current inQuotes quoteChar)
      else parseCommandLine_loop rest args (current @ [char]) inQuotes quoteChar)"

definition parseCommandLine :: "string \<Rightarrow> string list" where
  "parseCommandLine command = parseCommandLine_loop command [] [] False None"

subsection \<open>The tokenizer as the specification words it\<close>

text \<open>
  Two phases. \<open>mark\<close> walks the text with the open quote character (if any): a quote
  character that opens or closes a span is consumed, an unquoted separator becomes
  \<open>None\<close>, every other character \<open>c\<close> becomes \<open>Some c\<close>. \<open>splitSep\<close> cuts the marked
  text at the separators, and \<open>tokenize_spec\<close> drops the empty pieces. The separator
  class is a parameter: \<open>isWhitespace\<close> is the class of the specification's word
  (the ASCII white space characters), \<open>isSpace\<close> is the space character alone.
\<close>

fun mark :: "(char \<Rightarrow> bool) \<Rightarrow> char option \<Rightarrow> string \<Rightarrow> char option list" where
  "mark isSep q [] = []"
| "mark isSep None (c # cs) =
     (if c = dquote \<or> c = squote then mark isSep (Some c) cs
      else if isSep c then None # mark isSep None cs
      else Some c # mark isSep None cs)"
| "mark isSep (Some q) (c # cs) =
     (if c = q then mark isSep None cs else Some c # mark isSep (Some q) cs)"

fun attach :: "'a list \<Rightarrow> 'a list list \<Rightarrow> 'a list list" where
  "attach cur [] = [cur]"
| "attach cur (t # ts) = (cur @ t) # ts"

fun splitSep :: "'a option list \<Rightarrow> 'a list list" where
  "splitSep [] = [[]]"
| "splitSep (None # xs) = [] # splitSep xs"
| "splitSep (Some c # xs) = attach [c] (splitSep xs)"

definition tokenize_spec :: "(char \<Rightarrow> bool) \<Rightarrow> string \<Rightarrow> string list" where
  "tokenize_spec isSep text = filter (\<lambda>t. t \<noteq> []) (splitSep (mark isSep None text))"

definition isSpace :: "char \<Rightarrow> bool" where
  "isSpace c = (c = CHR '' '')"

definition isWhitespace :: "char \<Rightarrow> bool" where
  "isWhitespace c = (of_char c \<in> {9, 10, 11, 12, 13, 32 :: nat})"

section \<open>Invocation reconstructor: \<open>WalletManager.parseQuickCommand\<close>\<close>

text \<open>
  The result object of the source, with its fields prefixed (\<open>qp_\<close>) because record
  fields are global constants; \<open>txValue\<close> is the source's \<open>options.value\<close>. An optional
  field is an \<^typ>\<open>string option\<close>.
\<close>

record CallOptions =
  gasLimit :: "string option"
  gasPrice :: "string option"
  txValue :: "string option"

record QuickCommandParts =
  qp_alias :: string
  qp_contractAddress :: string
  qp_methodSignature :: string
  qp_args :: "string list"
  qp_rpcUrl :: "string option"
  qp_options :: CallOptions

text \<open>
  The \<open>for\<close> loop over \<open>remainingParts\<close>: the state is \<open>args\<close>, \<open>rpcUrl\<close> and
  \<open>options\<close>; \<open>i + 1 < remainingParts.length\<close> is \<open>rest \<noteq> []\<close>, and the extra \<open>i++\<close>
  of a flag branch continues with \<open>tl rest\<close>. The last equation's final \<open>else\<close> is the
  fall-through of the source's \<open>if\<close> chain: nothing is done with the token.
\<close>

fun parseQuickCommand_loop ::
  "string list \<Rightarrow> string list \<Rightarrow> string option \<Rightarrow> CallOptions \<Rightarrow>
     string list \<times> string option \<times> CallOptions" where
  "parseQuickCommand_loop [] args rpcUrl options = (args, rpcUrl, options)"
| "parseQuickCommand_loop (part # rest) args rpcUrl options =
     (if part = ''--rpc-url'' \<and> rest \<noteq> [] then
        parseQuickCommand_loop (tl rest) args (Some (hd rest)) options
      else if part = ''--gas-limit'' \<and> rest \<noteq> [] then
        parseQuickCommand_loop (tl rest) args rpcUrl (options\<lparr>gasLimit := Some (hd rest)\<rparr>)
      else if part = ''--gas-price'' \<and> rest \<noteq> [] then
        parseQuickCommand_loop (tl rest) args rpcUrl (options\<lparr>gasPrice := Some (hd rest)\<rparr>)
      else if part = ''--value'' \<and> rest \<noteq> [] then
        parseQuickCommand_loop (tl rest) args rpcUrl (options\<lparr>txValue := Some (hd rest)\<rparr>)
      else if \<not> prefix ''--'' part then
        parseQuickCommand_loop rest (args @ [part]) rpcUrl options
      else parseQuickCommand_loop rest args rpcUrl options)"

text \<open>
  The body of \<open>parseQuickCommand\<close> after the tokenizer call. The length check comes
  first, as in the source, so every index read below is in range.
\<close>

definition parseQuickCommand_parts :: "string list \<Rightarrow> error + QuickCommandParts" where
  "parseQuickCommand_parts parts =
     (if length parts < 4 then Inl InvalidQuickCommandFormat
      else
        let startIndex = (if parts ! 0 = ''call'' \<or> parts ! 0 = ''send'' then 1 else 0);
            remainingParts = drop (startIndex + 3) parts;
            (args, rpcUrl, options) =
               parseQuickCommand_loop remainingParts [] None
                 \<lparr>gasLimit = None, gasPrice = None, txValue = None\<rparr>
        in Inr \<lparr>qp_alias = parts ! startIndex,
                qp_contractAddress = parts ! (startIndex + 1),
                qp_methodSignature = parts ! (startIndex + 2),
                qp_args = args, qp_rpcUrl = rpcUrl, qp_options = options\<rparr>)"

definition parseQuickCommand :: "string \<Rightarrow> error + QuickCommandParts" where
  "parseQuickCommand command = parseQuickCommand_parts (parseCommandLine command)"

text \<open>
  Words of the specification, for stating the claims: the token sequence after
  discarding a leading verb, and the recognized flag tokens.
\<close>

definition dropVerb :: "string list \<Rightarrow> string list" where
  "dropVerb parts =
     (case parts of [] \<Rightarrow> []
      | p # rest \<Rightarrow> if p = ''call'' \<or> p = ''send'' then rest else parts)"

definition recognizedFlags :: "string list" where
  "recognizedFlags = [''--rpc-url'', ''--gas-limit'', ''--gas-price'', ''--value'']"

section \<open>Alias registry: \<open>ContractManager\<close>\<close>

text \<open>
  \<open>ContractInfo\<close> and \<open>ContractsFile\<close> of \<open>types.ts\<close>, fields prefixed. The \<open>abi\<close>
  array is opaque to the manager; each element is kept as its JSON text. The
  \<open>contracts\<close> object is a map from alias to entry: its own properties, which are
  what \<open>JSON.parse\<close> builds and \<open>JSON.stringify\<close> writes. The
  persisted document is the state: an operation takes the document read from the
  file and returns its outcome together with the document in the file afterwards.
  \<open>new Date().toISOString()\<close> is read three times by a write (entry \<open>createdAt\<close>,
  entry \<open>updatedAt\<close>, document \<open>updatedAt\<close>); the readings are parameters.
\<close>

text \<open>
  The assignment \<open>obj[key] = value\<close> on such an object, \<open>value\<close> being an object. A
  key that is an own property is replaced, and a new key becomes an own property,
  with one exception: \<open>__proto__\<close>, when it is not an own property, is the accessor
  of \<open>Object.prototype\<close>, whose setter makes \<open>value\<close> the prototype of \<open>obj\<close> and adds
  no own property, so that nothing of \<open>value\<close> is written to the file. (An own
  \<open>__proto__\<close>, which \<open>JSON.parse\<close> creates for a document that has the key, is
  replaced like any other.)

  A read \<open>obj[key]\<close> of a key that is not an own property but names a property of
  \<open>Object.prototype\<close> (\<open>constructor\<close>, \<open>toString\<close>, \<open>__proto__\<close>, ...) finds the
  inherited value in the source. The model reads own properties only; what is
  proved of a read is stated for a key that the document has.
\<close>

definition assignKey :: "(string \<rightharpoonup> 'v) \<Rightarrow> string \<Rightarrow> 'v \<Rightarrow> (string \<rightharpoonup> 'v)" where
  "assignKey obj key v =
     (if key = ''__proto__'' \<and> obj key = None then obj else obj(key \<mapsto> v))"

record ContractInfo =
  c_alias :: string
  c_address :: string
  c_name :: "string option"
  c_description :: "string option"
  c_network :: "string option"
  c_abi :: "string list option"
  c_createdAt :: string
  c_updatedAt :: string

record ContractsFile =
  contracts :: "string \<rightharpoonup> ContractInfo"
  cf_version :: string
  cf_createdAt :: string
  cf_updatedAt :: string

record ContractOptions =
  o_name :: "string option"
  o_description :: "string option"
  o_network :: "string option"
  o_abi :: "string list option"

text \<open>
  The \<open>updates\<close> argument of \<open>updateContract\<close>: \<open>None\<close> is an absent key (the command
  line layer only sets the keys it was given).
\<close>

record ContractUpdates =
  u_address :: "string option"
  u_name :: "string option"
  u_description :: "string option"
  u_network :: "string option"
  u_abi :: "string list option"

text \<open>
  \<open>saveContracts\<close> spreads the current document, then its argument, then the new
  \<open>updatedAt\<close>. Both callers pass a whole document, which overrides every field of
  the current one.
\<close>

definition saveContracts :: "ContractsFile \<Rightarrow> string \<Rightarrow> ContractsFile" where
  "saveContracts contractsDoc now = contractsDoc\<lparr>cf_updatedAt := now\<rparr>"

definition addContract ::
  "string \<Rightarrow> string \<Rightarrow> ContractOptions \<Rightarrow> string \<times> string \<times> string \<Rightarrow> ContractsFile \<Rightarrow>
     error option \<times> ContractsFile" where
  "addContract alias address options clock file =
     (case clock of (createdNow, updatedNow, savedNow) \<Rightarrow>
      if \<not> prefix ''0x'' address \<or> length address \<noteq> 42 then
        (Some InvalidContractAddressFormat, file)
      else
        (None,
         saveContracts
           (file\<lparr>contracts := assignKey (contracts file) alias
               \<lparr>c_alias = alias, c_address = address, c_name = o_name options,
                c_description = o_description options, c_network = o_network options,
                c_abi = o_abi options, c_createdAt = createdNow,
                c_updatedAt = updatedNow\<rparr>\<rparr>)
           savedNow))"

text \<open>
  \<open>{...contract, ...updates, updatedAt}\<close>: a key present in \<open>updates\<close> overrides the
  entry's field.
\<close>

definition applyUpdates :: "ContractInfo \<Rightarrow> ContractUpdates \<Rightarrow> string \<Rightarrow> ContractInfo" where
  "applyUpdates contract updates updatedNow =
     contract\<lparr>
       c_address := (case u_address updates of Some a \<Rightarrow> a | None \<Rightarrow> c_address contract),
       c_name := (case u_name updates of Some n \<Rightarrow> Some n | None \<Rightarrow> c_name contract),
       c_description :=
         (case u_description updates of Some d \<Rightarrow> Some d | None \<Rightarrow> c_description contract),
       c_network := (case u_network updates of Some n \<Rightarrow> Some n | None \<Rightarrow> c_network contract),
       c_abi := (case u_abi updates of Some a \<Rightarrow> Some a | None \<Rightarrow> c_abi contract),
       c_updatedAt := updatedNow\<rparr>"

text \<open>
  \<open>updateContract\<close> returns a boolean or throws. The validation is guarded by the
  truthiness of \<open>updates.address\<close>: an absent key and the empty string both skip it.
\<close>

definition updateContract ::
  "string \<Rightarrow> ContractUpdates \<Rightarrow> string \<times> string \<Rightarrow> ContractsFile \<Rightarrow>
     (error + bool) \<times> ContractsFile" where
  "updateContract alias updates clock file =
     (case clock of (updatedNow, savedNow) \<Rightarrow>
      case contracts file alias of
        None \<Rightarrow> (Inr False, file)
      | Some contract \<Rightarrow>
          if (case u_address updates of
                None \<Rightarrow> False
              | Some a \<Rightarrow> a \<noteq> [] \<and> (\<not> prefix ''0x'' a \<or> length a \<noteq> 42))
          then (Inl InvalidContractAddressFormat, file)
          else
            (Inr True,
             saveContracts
               (file\<lparr>contracts := assignKey (contracts file) alias
                   (applyUpdates contract updates updatedNow)\<rparr>)
               savedNow))"

text \<open>
  The address format of the specification: the prefix \<open>0x\<close> and exactly 40
  hexadecimal characters.
\<close>

definition isHexChar :: "char \<Rightarrow> bool" where
  "isHexChar c =
     (let n = (of_char c :: nat)
      in (48 \<le> n \<and> n \<le> 57) \<or> (97 \<le> n \<and> n \<le> 102) \<or> (65 \<le> n \<and> n \<le> 70))"

definition isHexAddress :: "string \<Rightarrow> bool" where
  "isHexAddress a =
     (prefix ''0x'' a \<and> length a = 42 \<and> list_all isHexChar (drop 2 a))"

section \<open>Template registry and expander: \<open>QuickCommandManager\<close>\<close>

record QuickCommand =
  qc_name :: string
  qc_parameters :: "string list"
  qc_template :: string
  qc_description :: "string option"
  qc_createdAt :: string
  qc_updatedAt :: string

record QuickCommandsFile =
  commands :: "string \<rightharpoonup> QuickCommand"
  qf_version :: string
  qf_createdAt :: string
  qf_updatedAt :: string

definition saveQuickCommands :: "QuickCommandsFile \<Rightarrow> string \<Rightarrow> QuickCommandsFile" where
  "saveQuickCommands quickCommands now = quickCommands\<lparr>qf_updatedAt := now\<rparr>"

text \<open>
  \<open>addQuickCommand\<close> has no check and no \<open>throw\<close>: it returns the new document. The
  \<open>commands\<close> object is assigned to as the \<open>contracts\<close> object is.
\<close>

definition addQuickCommand ::
  "string \<Rightarrow> string list \<Rightarrow> string \<Rightarrow> string option \<Rightarrow> string \<times> string \<times> string \<Rightarrow>
     QuickCommandsFile \<Rightarrow> QuickCommandsFile" where
  "addQuickCommand name parameters template description clock file =
     (case clock of (createdNow, updatedNow, savedNow) \<Rightarrow>
      saveQuickCommands
        (file\<lparr>commands := assignKey (commands file) name
            \<lparr>qc_name = name, qc_parameters = parameters, qc_template = template,
             qc_description = description, qc_createdAt = createdNow,
             qc_updatedAt = updatedNow\<rparr>\<rparr>)
        savedNow)"

subsection \<open>\<open>String.prototype.replace\<close> with a global literal pattern\<close>

text \<open>
  \<open>GetSubstitution\<close> of ECMAScript for a match without capture groups: in the
  replacement text \<open>$$\<close> is a dollar sign, \<open>$&\<close> the matched text, \<open>$`\<close> the text
  before the match and \<open>$'\<close> the text after it; a dollar sign followed by anything
  else (digits and \<open><\<close> included, there being no groups) stands for itself.
\<close>

fun getSubstitution :: "string \<Rightarrow> string \<Rightarrow> string \<Rightarrow> string \<Rightarrow> string" where
  "getSubstitution matched textBefore textAfter (c # d # rest) =
     (if c = dollar \<and> d = dollar then dollar # getSubstitution matched textBefore textAfter rest
      else if c = dollar \<and> d = CHR ''&'' then matched @ getSubstitution matched textBefore textAfter rest
      else if c = dollar \<and> d = CHR ''`'' then textBefore @ getSubstitution matched textBefore textAfter rest
      else if c = dollar \<and> d = squote then textAfter @ getSubstitution matched textBefore textAfter rest
      else c # getSubstitution matched textBefore textAfter (d # rest))"
| "getSubstitution matched textBefore textAfter rest = rest"

text \<open>
  \<open>result.replace(new RegExp(`\\${placeholder}`, 'g'), args[index])\<close> where
  \<open>placeholder\<close> is \<open>$\<close> followed by \<open>param\<close>: the regular expression is an escaped
  dollar sign followed by the text of \<open>param\<close>. When \<open>param\<close> has no syntax character
  this matches the literal text \<open>$param\<close>; the matches are found left to right and
  do not overlap. \<open>textBefore\<close> is the part of the subject already passed.
\<close>

fun replacePlaceholder :: "string \<Rightarrow> string \<Rightarrow> string \<Rightarrow> string \<Rightarrow> string" where
  "replacePlaceholder param replacement textBefore [] = []"
| "replacePlaceholder param replacement textBefore (c # cs) =
     (if c = dollar \<and> prefix param cs then
        getSubstitution (dollar # param) textBefore (drop (length param) cs) replacement
        @ replacePlaceholder param replacement (textBefore @ dollar # param) (drop (length param) cs)
      else c # replacePlaceholder param replacement (textBefore @ [c]) cs)"

definition regexSyntaxChar :: "char \<Rightarrow> bool" where
  "regexSyntaxChar c = (c \<in> set (''^$.*+?()[]{}|'' @ [backslash]))"

text \<open>The \<open>forEach\<close> over \<open>command.parameters\<close>, paired with \<open>args[index]\<close>.\<close>

fun replaceParameters :: "(string \<times> string) list \<Rightarrow> string \<Rightarrow> error + string" where
  "replaceParameters [] result = Inr result"
| "replaceParameters ((param, arg) # rest) result =
     (if list_ex regexSyntaxChar param then Inl (UnmodelledPattern param)
      else replaceParameters rest (replacePlaceholder param arg [] result))"

definition executeQuickCommand ::
  "string \<Rightarrow> string list \<Rightarrow> QuickCommandsFile \<Rightarrow> error + string" where
  "executeQuickCommand name args file =
     (case commands file name of
        None \<Rightarrow> Inl (QuickCommandNotFound name)
      | Some command \<Rightarrow>
          if length args \<noteq> length (qc_parameters command) then
            Inl (ArgumentCountMismatch name (length (qc_parameters command)) (length args))
          else replaceParameters (zip (qc_parameters command) args) (qc_template command))"

subsection \<open>One substitution pass as a split and a join\<close>

text \<open>
  For stating what a pass does: \<open>splitPlaceholder\<close> cuts a text at the occurrences of
  \<open>$param\<close> (leftmost first, not overlapping) and \<open>joinWith\<close> puts a value between the
  pieces, without looking into the value. \<open>plainValue\<close> holds of a value that has
  none of the four replacement patterns.
\<close>

fun splitPlaceholder :: "string \<Rightarrow> string \<Rightarrow> string list" where
  "splitPlaceholder param [] = [[]]"
| "splitPlaceholder param (c # cs) =
     (if c = dollar \<and> prefix param cs then [] # splitPlaceholder param (drop (length param) cs)
      else attach [c] (splitPlaceholder param cs))"

fun joinWith :: "'a list \<Rightarrow> 'a list list \<Rightarrow> 'a list" where
  "joinWith v [] = []"
| "joinWith v [p] = p"
| "joinWith v (p # q # ps) = p @ v @ joinWith v (q # ps)"

definition substitutePass :: "string \<Rightarrow> string \<times> string \<Rightarrow> string" where
  "substitutePass text pv = (case pv of (param, v) \<Rightarrow> joinWith v (splitPlaceholder param text))"

fun plainValue :: "string \<Rightarrow> bool" where
  "plainValue (c # d # rest) =
     (\<not> (c = dollar \<and> d \<in> {dollar, CHR ''&'', CHR ''`'', squote}) \<and> plainValue (d # rest))"
| "plainValue rest = True"

subsection \<open>\<open>parseParametersFromTemplate\<close>\<close>

text \<open>
  The character classes of the regular expression: \<open>[a-zA-Z_]\<close> and \<open>[a-zA-Z0-9_]\<close>.
\<close>

definition isIdentStart :: "char \<Rightarrow> bool" where
  "isIdentStart c =
     (let n = (of_char c :: nat)
      in (97 \<le> n \<and> n \<le> 122) \<or> (65 \<le> n \<and> n \<le> 90) \<or> n = 95)"

definition isIdentChar :: "char \<Rightarrow> bool" where
  "isIdentChar c =
     (let n = (of_char c :: nat)
      in (97 \<le> n \<and> n \<le> 122) \<or> (65 \<le> n \<and> n \<le> 90) \<or> (48 \<le> n \<and> n \<le> 57) \<or> n = 95)"

text \<open>
  The \<open>while\<close> loop over \<open>paramRegex.exec(template)\<close>: the first argument is the text
  from \<open>lastIndex\<close> on. A match starts at the next dollar sign that an identifier
  start follows and takes the longest run of identifier characters (the star is
  greedy and nothing follows it); the search resumes after the match. \<open>seen\<close> is the
  source's \<open>Set\<close>.
\<close>

function parseParameters_loop :: "string \<Rightarrow> string list \<Rightarrow> string set \<Rightarrow> string list" where
  "parseParameters_loop [] parameters seen = parameters"
| "parseParameters_loop (c # cs) parameters seen =
     (if c = dollar \<and> cs \<noteq> [] \<and> isIdentStart (hd cs) then
        (if takeWhile isIdentChar cs \<notin> seen then
           parseParameters_loop (dropWhile isIdentChar cs)
             (parameters @ [takeWhile isIdentChar cs]) (insert (takeWhile isIdentChar cs) seen)
         else parseParameters_loop (dropWhile isIdentChar cs) parameters seen)
      else parseParameters_loop cs parameters seen)"
  by pat_completeness auto
termination
  by (relation "measure (\<lambda>(s, parameters, seen). length s)")
     (auto simp: length_dropWhile_le less_Suc_eq_le)

definition parseParametersFromTemplate :: "string \<Rightarrow> string list" where
  "parseParametersFromTemplate template = parseParameters_loop template [] {}"

text \<open>
  The specification's words: the identifiers that follow a sigil in the body, by
  position, and that list with each identifier kept at its first occurrence only.
\<close>

definition placeholderOccurrences :: "string \<Rightarrow> string list" where
  "placeholderOccurrences body =
     [takeWhile isIdentChar (drop (Suc i) body).
        i \<leftarrow> [0..<length body], body ! i = dollar, Suc i < length body,
        isIdentStart (body ! Suc i)]"

fun firstOccurrences :: "'a list \<Rightarrow> 'a list" where
  "firstOccurrences [] = []"
| "firstOccurrences (x # xs) = x # filter (\<lambda>y. y \<noteq> x) (firstOccurrences xs)"

definition detectParameters_spec :: "string \<Rightarrow> string list" where
  "detectParameters_spec body = firstOccurrences (placeholderOccurrences body)"

section \<open>Example documents\<close>

text \<open>
  The alias registry of the specification's examples: one entry \<open>token\<close> whose address
  is \<open>0x\<close> followed by forty \<open>a\<close>. \<open>addressB\<close> is a second well-formed address and
  \<open>addressZ\<close> has the prefix and the length but no hexadecimal digit after the
  prefix. The template registry holds the \<open>mint\<close> template of the repository's
  documentation.
\<close>

definition addressA :: string where
  "addressA = ''0x'' @ replicate 40 (CHR ''a'')"

definition addressB :: string where
  "addressB = ''0x'' @ replicate 40 (CHR ''b'')"

definition addressZ :: string where
  "addressZ = ''0x'' @ replicate 40 (CHR ''z'')"

definition exampleEntry :: ContractInfo where
  "exampleEntry =
     \<lparr>c_alias = ''token'', c_address = addressA, c_name = Some ''MyToken'',
      c_description = None, c_network = None, c_abi = None,
      c_createdAt = ''2024-01-01T00:00:00.000Z'', c_updatedAt = ''2024-01-01T00:00:00.000Z''\<rparr>"

definition exampleContracts :: ContractsFile where
  "exampleContracts =
     \<lparr>contracts = [''token'' \<mapsto> exampleEntry], cf_version = ''1.0.0'',
      cf_createdAt = ''2024-01-01T00:00:00.000Z'', cf_updatedAt = ''2024-01-01T00:00:00.000Z''\<rparr>"

definition noOptions :: ContractOptions where
  "noOptions = \<lparr>o_name = None, o_description = None, o_network = None, o_abi = None\<rparr>"

definition noUpdates :: ContractUpdates where
  "noUpdates =
     \<lparr>u_address = None, u_name = None, u_description = None, u_network = None, u_abi = None\<rparr>"

definition laterClock :: "string \<times> string \<times> string" where
  "laterClock =
     (''2024-02-02T00:00:00.000Z'', ''2024-02-02T00:00:00.001Z'', ''2024-02-02T00:00:00.002Z'')"

definition mintCommand :: QuickCommand where
  "mintCommand =
     \<lparr>qc_name = ''mint'', qc_parameters = [''amount'', ''recipient''],
      qc_template = ''call my-wallet token \"mint(uint256,address)\" $amount $recipient'',
      qc_description = None,
      qc_createdAt = ''2024-01-01T00:00:00.000Z'', qc_updatedAt = ''2024-01-01T00:00:00.000Z''\<rparr>"

definition exampleQuickCommands :: QuickCommandsFile where
  "exampleQuickCommands =
     \<lparr>commands = [''mint'' \<mapsto> mintCommand], qf_version = ''1.0.0'',
      qf_createdAt = ''2024-01-01T00:00:00.000Z'', qf_updatedAt = ''2024-01-01T00:00:00.000Z''\<rparr>"

text \<open>
  The template registry after \<open>quick add\<close> of one more template, and a template
  with two placeholders of which the first is a prefix of the second.
\<close>

definition quickCommandsWith :: "string \<Rightarrow> string list \<Rightarrow> string \<Rightarrow> QuickCommandsFile" where
  "quickCommandsWith name parameters template =
     addQuickCommand name parameters template None laterClock exampleQuickCommands"

definition cappedTemplate :: string where
  "cappedTemplate = ''call w c m $amount $amountMax''"

section \<open>Tokenizer: theorems\<close>

lemma splitSep_not_Nil: "splitSep xs \<noteq> []"
  by (induction xs rule: splitSep.induct) (auto simp: neq_Nil_conv elim: attach.elims)

lemma attach_Nil: "ts \<noteq> [] \<Longrightarrow> attach [] ts = ts"
  by (cases ts) simp_all

lemma attach_snoc: "ts \<noteq> [] \<Longrightarrow> attach cur (attach [c] ts) = attach (cur @ [c]) ts"
  by (cases ts) simp_all

lemma isSpace_iff: "isSpace c \<longleftrightarrow> c = CHR '' ''"
  by (simp add: isSpace_def)

text \<open>
  The loop, started in any consistent state (\<open>inQuotes\<close> holds exactly when a quote
  character is open), yields the tokens pushed so far followed by the non-empty
  pieces of the rest of the text, the first piece continuing \<open>current\<close>.
\<close>

lemma parseCommandLine_loop_spec:
  "parseCommandLine_loop s acc current (q \<noteq> None) q =
     acc @ filter (\<lambda>t. t \<noteq> []) (attach current (splitSep (mark isSpace q s)))"
proof (induction s arbitrary: acc current q)
  case Nil
  show ?case by simp
next
  case (Cons c s)
  note ne = splitSep_not_Nil
  show ?case
  proof (cases q)
    case None
    from None Cons[of acc current "Some c"] Cons[of "acc @ [current]" "[]" None]
      Cons[of acc current None] Cons[of acc "current @ [c]" None]
    show ?thesis
      by (auto simp: isSpace_iff ne attach_snoc attach_Nil)
  next
    case (Some q')
    from Some Cons[of acc current None] Cons[of acc "current @ [c]" "Some q'"]
    show ?thesis
      by (simp add: ne attach_snoc)
  qed
qed

text \<open>
  Inside a quoted span every character but the closing quote is appended to the
  current token; the tokens pushed so far are a prefix of the result; and a text
  without quote characters, followed by a space, is tokenized on its own.
\<close>

lemma parseCommandLine_loop_quoted:
  "q \<notin> set body \<Longrightarrow>
   parseCommandLine_loop (body @ rest) acc current True (Some q) =
     parseCommandLine_loop rest acc (current @ body) True (Some q)"
  by (induction body arbitrary: current) auto

lemma parseCommandLine_loop_acc:
  "parseCommandLine_loop s acc current (q \<noteq> None) q =
     acc @ parseCommandLine_loop s [] current (q \<noteq> None) q"
  using parseCommandLine_loop_spec[of s acc current q] parseCommandLine_loop_spec[of s "[]" current q]
  by simp

lemma parseCommandLine_loop_unquoted:
  "dquote \<notin> set u \<Longrightarrow> squote \<notin> set u \<Longrightarrow>
   parseCommandLine_loop (u @ CHR '' '' # v) acc current False None =
     parseCommandLine_loop v (parseCommandLine_loop u acc current False None) [] False None"
  by (induction u arbitrary: acc current) auto

text \<open>
  Claim C8, as the code has it. The tokenizer splits exactly at the unquoted
  occurrences of the space character (the only separator the loop tests for): it
  computes \<open>tokenize_spec isSpace\<close>, in which an unquoted quote character opens a
  span that only the same character closes, both are consumed, every character
  inside the span (spaces and the other quote character included) is kept, empty
  pieces between separators are dropped, an unclosed span runs to the end of the
  text, and the empty text gives no token. Said of the code directly: the empty
  text has no token; a quoted span \<open>q body q\<close> is the one token \<open>body\<close>, and so is
  the unclosed \<open>q body\<close>; and a space after a text without quote characters
  separates the tokens before it from the tokens after it.
\<close>

theorem parseCommandLine_tokenize_spec:
  "parseCommandLine text = tokenize_spec isSpace text \<and>
   parseCommandLine [] = [] \<and>
   (q \<in> {dquote, squote} \<and> q \<notin> set body \<and> body \<noteq> [] \<longrightarrow>
      parseCommandLine (q # body @ [q]) = [body] \<and> parseCommandLine (q # body) = [body]) \<and>
   (dquote \<notin> set u \<and> squote \<notin> set u \<longrightarrow>
      parseCommandLine (u @ CHR '' '' # v) = parseCommandLine u @ parseCommandLine v)"
proof (intro conjI impI)
  show "parseCommandLine text = tokenize_spec isSpace text"
    using parseCommandLine_loop_spec[of "text" "[]" "[]" None]
    by (simp add: parseCommandLine_def tokenize_spec_def attach_Nil splitSep_not_Nil)
  show "parseCommandLine [] = []"
    by (simp add: parseCommandLine_def)
next
  assume a: "q \<in> {dquote, squote} \<and> q \<notin> set body \<and> body \<noteq> []"
  then have q: "q \<notin> set body" by simp
  show "parseCommandLine (q # body @ [q]) = [body]"
    using a parseCommandLine_loop_quoted[OF q, of "[q]" "[]" "[]"]
    by (auto simp: parseCommandLine_def)
  show "parseCommandLine (q # body) = [body]"
    using a parseCommandLine_loop_quoted[OF q, of "[]" "[]" "[]"]
    by (auto simp: parseCommandLine_def)
next
  assume a: "dquote \<notin> set u \<and> squote \<notin> set u"
  show "parseCommandLine (u @ CHR '' '' # v) = parseCommandLine u @ parseCommandLine v"
    using a parseCommandLine_loop_unquoted[of u v "[]" "[]"]
      parseCommandLine_loop_acc[of v "parseCommandLine_loop u [] [] False None" "[]" None]
    by (simp add: parseCommandLine_def)
qed

text \<open>
  The example of the specification, \<open>call a "b c" d\<close>, and the span \<open>"it's  it"\<close>,
  closed and unclosed.
\<close>

theorem parseCommandLine_tokenize_spec_witness:
  "parseCommandLine ''call a \"b c\" d'' = tokenize_spec isSpace ''call a \"b c\" d'' \<and>
   tokenize_spec isSpace ''call a \"b c\" d'' = [''call'', ''a'', ''b c'', ''d''] \<and>
   parseCommandLine (dquote # ''it's  it'' @ [dquote]) = [''it's  it''] \<and>
   parseCommandLine (dquote # ''it's  it'') = [''it's  it''] \<and>
   parseCommandLine (''call'' @ CHR '' '' # ''a \"b c\" d'') =
     parseCommandLine ''call'' @ parseCommandLine ''a \"b c\" d''"
  using parseCommandLine_tokenize_spec[of "''call a \"b c\" d''" dquote "''it's  it''"
      "''call''" "''a \"b c\" d''"]
  by (simp add: tokenize_spec_def isSpace_iff parseCommandLine_def)

text \<open>
  Claim C8 as stated, with white space as the separator class, fails: a tab between
  two letters is unquoted white space, and the code keeps it inside one token.
\<close>

theorem parseCommandLine_whitespace_counterexample:
  "parseCommandLine [CHR ''a'', tab, CHR ''b''] = [[CHR ''a'', tab, CHR ''b'']] \<and>
   tokenize_spec isWhitespace [CHR ''a'', tab, CHR ''b''] = [''a'', ''b''] \<and>
   parseCommandLine [CHR ''a'', tab, CHR ''b''] \<noteq>
     tokenize_spec isWhitespace [CHR ''a'', tab, CHR ''b'']"
  by (simp add: parseCommandLine_def tokenize_spec_def isWhitespace_def)

lemma parseCommandLine_loop_no_empty:
  "[] \<notin> set acc \<Longrightarrow> [] \<notin> set (parseCommandLine_loop s acc current inQuotes quoteChar)"
  by (induction s acc current inQuotes quoteChar rule: parseCommandLine_loop.induct) auto

lemma parseCommandLine_loop_spaces:
  "parseCommandLine_loop (replicate n (CHR '' '')) acc [] False None = acc"
  by (induction n) auto

text \<open>
  Claim C10. No token of the result is the empty string; a text of separators only
  (any number of spaces) gives no token; and an adjacent quote pair standing alone
  between separators gives no token: \<open>a "" b\<close> tokenizes to \<open>a\<close>, \<open>b\<close>, and more
  generally a pair \<open>""\<close> or \<open>''\<close> between two spaces, after a text without quote
  characters, leaves the tokens of the text before it and of the text after it.
\<close>

theorem parseCommandLine_no_empty_token:
  "[] \<notin> set (parseCommandLine text) \<and>
   parseCommandLine (replicate n (CHR '' '')) = [] \<and>
   parseCommandLine ''a \"\" b'' = [''a'', ''b''] \<and>
   (q \<in> {dquote, squote} \<and> dquote \<notin> set u \<and> squote \<notin> set u \<longrightarrow>
      parseCommandLine (u @ CHR '' '' # q # q # CHR '' '' # v) =
        parseCommandLine u @ parseCommandLine v)"
proof (intro conjI impI)
  show "[] \<notin> set (parseCommandLine text)"
    using parseCommandLine_loop_no_empty[of "[]" "text" "[]" False None]
    by (simp add: parseCommandLine_def)
  show "parseCommandLine (replicate n (CHR '' '')) = []"
    by (simp add: parseCommandLine_def parseCommandLine_loop_spaces)
  show "parseCommandLine ''a \"\" b'' = [''a'', ''b'']"
    by (simp add: parseCommandLine_def)
next
  assume a: "q \<in> {dquote, squote} \<and> dquote \<notin> set u \<and> squote \<notin> set u"
  have "parseCommandLine_loop (q # q # CHR '' '' # v) acc [] False None =
        parseCommandLine_loop v acc [] False None" for acc
    using a by auto
  then show "parseCommandLine (u @ CHR '' '' # q # q # CHR '' '' # v) =
        parseCommandLine u @ parseCommandLine v"
    using a parseCommandLine_loop_unquoted[of u "q # q # CHR '' '' # v" "[]" "[]"]
      parseCommandLine_loop_acc[of v "parseCommandLine_loop u [] [] False None" "[]" None]
    by (simp add: parseCommandLine_def)
qed

text \<open>Pairs of both quote characters between spaces, and three spaces.\<close>

theorem parseCommandLine_no_empty_token_witness:
  "[] \<notin> set (parseCommandLine ''  a  \"\"  b \"\"'') \<and>
   parseCommandLine ''  a  \"\"  b \"\"'' = [''a'', ''b''] \<and>
   parseCommandLine ''   '' = [] \<and>
   parseCommandLine (''a'' @ CHR '' '' # squote # squote # CHR '' '' # ''b'') = [''a'', ''b'']"
  using parseCommandLine_no_empty_token[of "''  a  \"\"  b \"\"''" 3 squote "''a''" "''b''"]
  by (simp add: parseCommandLine_def)

section \<open>Invocation reconstructor: theorems\<close>

lemma recognizedFlags_iff:
  "t \<in> set recognizedFlags \<longleftrightarrow>
     t = ''--rpc-url'' \<or> t = ''--gas-limit'' \<or> t = ''--gas-price'' \<or> t = ''--value''"
  by (auto simp: recognizedFlags_def)

text \<open>
  One step of the loop when a token follows, and when the token is not a
  recognized flag or no token follows. The equations are unfolded with these two
  lemmas only, never by the simplifier on a token that is a variable.
\<close>

lemma parseQuickCommand_loop_step:
  "rest \<noteq> [] \<Longrightarrow>
   parseQuickCommand_loop (part # rest) acc rpcUrl opts =
     (if part = ''--rpc-url'' then parseQuickCommand_loop (tl rest) acc (Some (hd rest)) opts
      else if part = ''--gas-limit'' then
        parseQuickCommand_loop (tl rest) acc rpcUrl (opts\<lparr>gasLimit := Some (hd rest)\<rparr>)
      else if part = ''--gas-price'' then
        parseQuickCommand_loop (tl rest) acc rpcUrl (opts\<lparr>gasPrice := Some (hd rest)\<rparr>)
      else if part = ''--value'' then
        parseQuickCommand_loop (tl rest) acc rpcUrl (opts\<lparr>txValue := Some (hd rest)\<rparr>)
      else if \<not> prefix ''--'' part then parseQuickCommand_loop rest (acc @ [part]) rpcUrl opts
      else parseQuickCommand_loop rest acc rpcUrl opts)"
  by (simp only: parseQuickCommand_loop.simps simp_thms if_True if_False)

lemma recognizedFlags_neq:
  "part \<notin> set recognizedFlags \<Longrightarrow>
     part \<noteq> ''--rpc-url'' \<and> part \<noteq> ''--gas-limit'' \<and> part \<noteq> ''--gas-price'' \<and> part \<noteq> ''--value''"
  by (simp only: recognizedFlags_iff) blast

lemma parseQuickCommand_loop_last:
  assumes "part \<notin> set recognizedFlags \<or> rest = []"
  shows "parseQuickCommand_loop (part # rest) acc rpcUrl opts =
     (if \<not> prefix ''--'' part then parseQuickCommand_loop rest (acc @ [part]) rpcUrl opts
      else parseQuickCommand_loop rest acc rpcUrl opts)"
  using assms
proof
  assume "part \<notin> set recognizedFlags"
  from recognizedFlags_neq[OF this] show ?thesis
    by (simp only: parseQuickCommand_loop.simps simp_thms if_True if_False)
next
  assume "rest = []"
  then show ?thesis
    by (simp only: parseQuickCommand_loop.simps simp_thms if_True if_False)
qed

text \<open>
  A token starting with \<open>--\<close>, met by the scan after tokens that do not end in a
  recognized flag, is passed over when it is not a recognized flag, or is one with
  nothing after it.
\<close>

lemma parseQuickCommand_loop_skip:
  "xs = [] \<or> last xs \<notin> set recognizedFlags \<Longrightarrow> prefix ''--'' t \<Longrightarrow>
   t \<in> set recognizedFlags \<longrightarrow> post = [] \<Longrightarrow>
   parseQuickCommand_loop (xs @ t # post) acc rpcUrl opts =
     parseQuickCommand_loop (xs @ post) acc rpcUrl opts"
proof (induction xs arbitrary: acc rpcUrl opts rule: length_induct)
  case (1 xs)
  have IH: "parseQuickCommand_loop (ys @ t # post) a ru op = parseQuickCommand_loop (ys @ post) a ru op"
    if "length ys < length xs" "ys = [] \<or> last ys \<notin> set recognizedFlags" for ys a ru op
    using 1(1) that 1(3,4) by blast
  show ?case
  proof (cases xs)
    case Nil
    have "t \<notin> set recognizedFlags \<or> post = []" using 1(4) by blast
    from parseQuickCommand_loop_last[OF this, of acc rpcUrl opts] 1(3)
    have "parseQuickCommand_loop (t # post) acc rpcUrl opts = parseQuickCommand_loop post acc rpcUrl opts"
      by (simp only: simp_thms if_False)
    with Nil show ?thesis by (simp only: append_Nil)
  next
    case (Cons part rest)
    show ?thesis
    proof (cases "rest = []")
      case True
      with Cons 1(2) have np: "part \<notin> set recognizedFlags" by simp
      have e: "parseQuickCommand_loop (t # post) a ru op = parseQuickCommand_loop post a ru op" for a ru op
        using IH[of "[]" a ru op] Cons by simp
      show ?thesis
        unfolding Cons True append_Cons append_Nil
        by (simp only: parseQuickCommand_loop_last[OF disjI1[OF np]] e)
    next
      case False
      have e1: "parseQuickCommand_loop (tl rest @ t # post) a ru op =
                parseQuickCommand_loop (tl rest @ post) a ru op" for a ru op
      proof (rule IH)
        show "length (tl rest) < length xs" using Cons by simp
        show "tl rest = [] \<or> last (tl rest) \<notin> set recognizedFlags"
          using 1(2) Cons False by (cases rest; cases "tl rest") auto
      qed
      have e2: "parseQuickCommand_loop (rest @ t # post) a ru op =
                parseQuickCommand_loop (rest @ post) a ru op" for a ru op
      proof (rule IH)
        show "length rest < length xs" using Cons by simp
        show "rest = [] \<or> last rest \<notin> set recognizedFlags"
          using 1(2) Cons False by auto
      qed
      have ne1: "rest @ t # post \<noteq> []" and ne2: "rest @ post \<noteq> []"
        using False by simp_all
      show ?thesis
        unfolding Cons append_Cons
        by (simp only: parseQuickCommand_loop_step[OF ne1] parseQuickCommand_loop_step[OF ne2]
              hd_append2[OF False] tl_append2[OF False] e1 e2)
    qed
  qed
qed

text \<open>The loop appends no token that starts with \<open>--\<close> to the arguments.\<close>

lemma parseQuickCommand_loop_args:
  "list_all (\<lambda>a. \<not> prefix ''--'' a) acc \<Longrightarrow>
   list_all (\<lambda>a. \<not> prefix ''--'' a) (fst (parseQuickCommand_loop parts acc rpcUrl opts))"
proof (induction parts arbitrary: acc rpcUrl opts rule: length_induct)
  case (1 parts)
  have IH: "list_all (\<lambda>a. \<not> prefix ''--'' a) (fst (parseQuickCommand_loop ys acc' ru op))"
    if "length ys < length parts" "list_all (\<lambda>a. \<not> prefix ''--'' a) acc'" for ys acc' ru op
    using 1(1) that by blast
  show ?case
  proof (cases parts)
    case Nil
    with 1(2) show ?thesis by simp
  next
    case (Cons part rest)
    have a: "list_all (\<lambda>a. \<not> prefix ''--'' a) (fst (parseQuickCommand_loop rest acc ru op))" for ru op
      by (rule IH) (simp_all add: Cons 1(2))
    have b: "list_all (\<lambda>a. \<not> prefix ''--'' a) (fst (parseQuickCommand_loop rest (acc @ [part]) ru op))"
      if "\<not> prefix ''--'' part" for ru op
      by (rule IH) (simp_all add: Cons 1(2) that)
    have c: "list_all (\<lambda>a. \<not> prefix ''--'' a) (fst (parseQuickCommand_loop (tl rest) acc ru op))" for ru op
      by (rule IH) (simp_all add: Cons 1(2))
    show ?thesis
      unfolding Cons
      by (simp only: parseQuickCommand_loop.simps split: if_split)
         (intro conjI impI; (rule a c | erule b))
  qed
qed

lemma parseQuickCommand_parts_short:
  "length parts < 4 \<Longrightarrow> parseQuickCommand_parts parts = Inl InvalidQuickCommandFormat"
  by (simp add: parseQuickCommand_parts_def)

text \<open>
  With four tokens or more, the result in terms of the tokens after the verb.
\<close>

lemma parseQuickCommand_parts_body:
  assumes "4 \<le> length parts"
  shows "parseQuickCommand_parts parts =
     Inr \<lparr>qp_alias = dropVerb parts ! 0,
          qp_contractAddress = dropVerb parts ! 1,
          qp_methodSignature = dropVerb parts ! 2,
          qp_args = fst (parseQuickCommand_loop (drop 3 (dropVerb parts)) [] None
                      \<lparr>gasLimit = None, gasPrice = None, txValue = None\<rparr>),
          qp_rpcUrl = fst (snd (parseQuickCommand_loop (drop 3 (dropVerb parts)) [] None
                      \<lparr>gasLimit = None, gasPrice = None, txValue = None\<rparr>)),
          qp_options = snd (snd (parseQuickCommand_loop (drop 3 (dropVerb parts)) [] None
                      \<lparr>gasLimit = None, gasPrice = None, txValue = None\<rparr>))\<rparr>"
proof (cases parts)
  case Nil
  with assms show ?thesis by simp
next
  case (Cons p rest)
  show ?thesis
  proof (cases "p = ''call'' \<or> p = ''send''")
    case True
    then have v: "(parts ! 0 = ''call'' \<or> parts ! 0 = ''send'') = True" "dropVerb parts = rest"
      using Cons by (simp_all add: dropVerb_def)
    have n: "\<not> length parts < 4" using assms by simp
    show ?thesis
      unfolding parseQuickCommand_parts_def v(2)
      by (simp only: n v(1) if_True if_False Let_def split_beta) (simp add: Cons numeral_2_eq_2)
  next
    case False
    then have v: "(parts ! 0 = ''call'' \<or> parts ! 0 = ''send'') = False" "dropVerb parts = parts"
      using Cons by (simp_all add: dropVerb_def)
    have n: "\<not> length parts < 4" using assms by simp
    show ?thesis
      unfolding parseQuickCommand_parts_def v(2)
      by (simp only: n v(1) if_True if_False Let_def split_beta) (simp add: numeral_2_eq_2)
  qed
qed


lemma dropVerb_append: "pre \<noteq> [] \<Longrightarrow> dropVerb (pre @ ys) = dropVerb pre @ ys"
  by (cases pre) (simp_all only: dropVerb_def list.case append_Cons if_distrib[of "\<lambda>l. l @ ys"] simp_thms)

lemma dropVerb_length: "length (dropVerb parts) \<le> length parts"
  by (cases parts) (simp_all add: dropVerb_def del: One_nat_def)

lemma dropVerb_last: "dropVerb parts \<noteq> [] \<Longrightarrow> last (dropVerb parts) = last parts"
proof (cases parts)
  case Nil
  then show ?thesis by (simp add: dropVerb_def)
next
  case (Cons p rest)
  assume ne: "dropVerb parts \<noteq> []"
  show ?thesis
  proof (cases "p = ''call'' \<or> p = ''send''")
    case True
    then have "dropVerb parts = rest" using Cons by (simp add: dropVerb_def)
    with ne Cons show ?thesis by simp
  next
    case False
    then have "dropVerb parts = parts" using Cons by (simp add: dropVerb_def)
    then show ?thesis by simp
  qed
qed

text \<open>
  A token starting with \<open>--\<close> among the tokens after the three fixed ones, that is
  the first of them or follows a token that is not a recognized flag, and that is
  not a recognized flag itself or has nothing after it: the result is the
  descriptor of the three fixed tokens and of the scan of the other tokens. The
  second lemma is the result for the tokens without it, when there are four or
  more of them.
\<close>

lemma parseQuickCommand_parts_without:
  assumes "3 \<le> length (dropVerb pre)"
    and "drop 3 (dropVerb pre) = [] \<or> last pre \<notin> set recognizedFlags"
    and "prefix ''--'' t"
    and "t \<in> set recognizedFlags \<longrightarrow> post = []"
  shows "parseQuickCommand_parts (pre @ t # post) =
     Inr \<lparr>qp_alias = dropVerb pre ! 0,
          qp_contractAddress = dropVerb pre ! 1,
          qp_methodSignature = dropVerb pre ! 2,
          qp_args = fst (parseQuickCommand_loop (drop 3 (dropVerb pre) @ post) [] None
                      \<lparr>gasLimit = None, gasPrice = None, txValue = None\<rparr>),
          qp_rpcUrl = fst (snd (parseQuickCommand_loop (drop 3 (dropVerb pre) @ post) [] None
                      \<lparr>gasLimit = None, gasPrice = None, txValue = None\<rparr>)),
          qp_options = snd (snd (parseQuickCommand_loop (drop 3 (dropVerb pre) @ post) [] None
                      \<lparr>gasLimit = None, gasPrice = None, txValue = None\<rparr>))\<rparr>"
proof -
  let ?b = "dropVerb pre"
  have len: "3 \<le> length pre" using assms(1) dropVerb_length[of pre] by simp
  then have ne: "pre \<noteq> []" by auto
  have l1: "4 \<le> length (pre @ t # post)" using len by simp
  have d1: "dropVerb (pre @ t # post) = ?b @ t # post"
    using ne by (rule dropVerb_append)
  have n: "(?b @ ys) ! 0 = ?b ! 0" "(?b @ ys) ! 1 = ?b ! 1" "(?b @ ys) ! 2 = ?b ! 2" for ys
    using assms(1) by (auto simp: nth_append)
  have dr: "drop 3 (?b @ ys) = drop 3 ?b @ ys" for ys
    using assms(1) by simp
  have la: "drop 3 ?b = [] \<or> last (drop 3 ?b) \<notin> set recognizedFlags"
  proof (cases "drop 3 ?b = []")
    case False
    then have "last (drop 3 ?b) = last ?b" by (simp add: last_drop)
    also have "\<dots> = last pre" using assms(1) by (intro dropVerb_last) auto
    finally show ?thesis using assms(2) False by simp
  qed simp
  have sk: "parseQuickCommand_loop (drop 3 ?b @ t # post) a ru op =
            parseQuickCommand_loop (drop 3 ?b @ post) a ru op" for a ru op
    by (rule parseQuickCommand_loop_skip[OF la assms(3,4)])
  show ?thesis
    by (simp only: parseQuickCommand_parts_body[OF l1] d1 n dr sk)
qed

lemma parseQuickCommand_parts_rest:
  assumes "3 \<le> length (dropVerb pre)" and "4 \<le> length (pre @ post)"
  shows "parseQuickCommand_parts (pre @ post) =
     Inr \<lparr>qp_alias = dropVerb pre ! 0,
          qp_contractAddress = dropVerb pre ! 1,
          qp_methodSignature = dropVerb pre ! 2,
          qp_args = fst (parseQuickCommand_loop (drop 3 (dropVerb pre) @ post) [] None
                      \<lparr>gasLimit = None, gasPrice = None, txValue = None\<rparr>),
          qp_rpcUrl = fst (snd (parseQuickCommand_loop (drop 3 (dropVerb pre) @ post) [] None
                      \<lparr>gasLimit = None, gasPrice = None, txValue = None\<rparr>)),
          qp_options = snd (snd (parseQuickCommand_loop (drop 3 (dropVerb pre) @ post) [] None
                      \<lparr>gasLimit = None, gasPrice = None, txValue = None\<rparr>))\<rparr>"
proof -
  let ?b = "dropVerb pre"
  have "pre \<noteq> []" using assms(1) dropVerb_length[of pre] by auto
  then have d2: "dropVerb (pre @ post) = ?b @ post" by (rule dropVerb_append)
  have n: "(?b @ ys) ! 0 = ?b ! 0" "(?b @ ys) ! 1 = ?b ! 1" "(?b @ ys) ! 2 = ?b ! 2" for ys
    using assms(1) by (auto simp: nth_append)
  have dr: "drop 3 (?b @ ys) = drop 3 ?b @ ys" for ys
    using assms(1) by simp
  show ?thesis
    by (simp only: parseQuickCommand_parts_body[OF assms(2)] d2 n dr)
qed

lemma parseQuickCommand_parts_args:
  assumes "parseQuickCommand_parts parts = Inr d"
  shows "list_all (\<lambda>a. \<not> prefix ''--'' a) (qp_args d)"
proof -
  have l: "4 \<le> length parts"
    using assms parseQuickCommand_parts_short[of parts] by (cases "length parts < 4") auto
  have "list_all (\<lambda>a. \<not> prefix ''--'' a)
     (fst (parseQuickCommand_loop (drop 3 (dropVerb parts)) [] None
        \<lparr>gasLimit = None, gasPrice = None, txValue = None\<rparr>))"
    by (rule parseQuickCommand_loop_args) simp
  with assms show ?thesis
    unfolding parseQuickCommand_parts_body[OF l] by auto
qed

text \<open>
  Claim C4, as the code has it. The length check is made on the whole token
  sequence, before a leading verb is looked at: with fewer than 4 tokens in all the
  reconstruction fails with the format error, and with 4 or more it succeeds and
  binds the signer alias, the contract reference and the method signature to the
  first three tokens that remain after a leading \<open>call\<close> or \<open>send\<close> is discarded.
\<close>

theorem parseQuickCommand_token_count:
  "(length (parseCommandLine command) < 4 \<longrightarrow>
      parseQuickCommand command = Inl InvalidQuickCommandFormat) \<and>
   (4 \<le> length (parseCommandLine command) \<longrightarrow>
      (\<exists>d. parseQuickCommand command = Inr d \<and>
           qp_alias d = dropVerb (parseCommandLine command) ! 0 \<and>
           qp_contractAddress d = dropVerb (parseCommandLine command) ! 1 \<and>
           qp_methodSignature d = dropVerb (parseCommandLine command) ! 2))"
  unfolding parseQuickCommand_def
  using parseQuickCommand_parts_short[of "parseCommandLine command"]
    parseQuickCommand_parts_body[of "parseCommandLine command"]
  by auto

text \<open>
  A verb and three tokens, four tokens without a verb, and a verb with two tokens.
\<close>

theorem parseQuickCommand_token_count_witness:
  "length (parseCommandLine ''send w c m'') = 4 \<and>
   dropVerb (parseCommandLine ''send w c m'') = [''w'', ''c'', ''m''] \<and>
   parseQuickCommand ''send w c m'' =
     Inr \<lparr>qp_alias = ''w'', qp_contractAddress = ''c'', qp_methodSignature = ''m'',
          qp_args = [], qp_rpcUrl = None,
          qp_options = \<lparr>gasLimit = None, gasPrice = None, txValue = None\<rparr>\<rparr> \<and>
   length (parseCommandLine ''w c m x'') = 4 \<and>
   parseQuickCommand ''w c m x'' =
     Inr \<lparr>qp_alias = ''w'', qp_contractAddress = ''c'', qp_methodSignature = ''m'',
          qp_args = [''x''], qp_rpcUrl = None,
          qp_options = \<lparr>gasLimit = None, gasPrice = None, txValue = None\<rparr>\<rparr> \<and>
   length (parseCommandLine ''call w c'') = 3 \<and>
   parseQuickCommand ''call w c'' = Inl InvalidQuickCommandFormat"
  using parseQuickCommand_token_count[of "''send w c m''"]
    parseQuickCommand_token_count[of "''w c m x''"]
    parseQuickCommand_token_count[of "''call w c''"]
  by (simp add: parseQuickCommand_def parseQuickCommand_parts_def parseCommandLine_def
        dropVerb_def)

text \<open>
  Claim C4 as stated fails: a sequence of exactly three tokens without a verb has
  three tokens after the (absent) verb is discarded, and is rejected.
\<close>

theorem parseQuickCommand_verbless_counterexample:
  "parseCommandLine ''w c m'' = [''w'', ''c'', ''m''] \<and>
   length (dropVerb (parseCommandLine ''w c m'')) = 3 \<and>
   parseQuickCommand ''w c m'' = Inl InvalidQuickCommandFormat"
  by (simp add: parseQuickCommand_def parseQuickCommand_parts_def parseCommandLine_def
        dropVerb_def)

text \<open>
  Claim C5, as the code has it. A recognized flag as the final remaining token
  (the last of the tokens after the three fixed ones, so that three tokens at
  least stand before it once a leading verb is discarded) does not make the
  reconstruction fail: the result is a descriptor with the three fixed tokens, and
  the flag is not among its positional arguments. When the flag is the only
  remaining token, or the token before it is not itself a recognized flag (which
  would take the flag as its value), the flag is dropped without any effect: the
  positional arguments and the options are those of the scan of the remaining
  tokens before it; and when the tokens before it are four or more, the result is
  that of the input without the flag.
\<close>

theorem parseQuickCommand_trailing_flag:
  assumes "parseCommandLine command = parts @ [flag]"
    and "3 \<le> length (dropVerb parts)" and "flag \<in> set recognizedFlags"
  shows "\<exists>d. parseQuickCommand command = Inr d \<and>
           qp_alias d = dropVerb parts ! 0 \<and>
           qp_contractAddress d = dropVerb parts ! 1 \<and>
           qp_methodSignature d = dropVerb parts ! 2 \<and>
           flag \<notin> set (qp_args d) \<and>
           (drop 3 (dropVerb parts) = [] \<or> last parts \<notin> set recognizedFlags \<longrightarrow>
              (qp_args d, qp_rpcUrl d, qp_options d) =
                 parseQuickCommand_loop (drop 3 (dropVerb parts)) [] None
                   \<lparr>gasLimit = None, gasPrice = None, txValue = None\<rparr> \<and>
              (4 \<le> length parts \<longrightarrow>
                 parseQuickCommand command = parseQuickCommand_parts parts))"
proof -
  let ?b = "dropVerb parts"
  have len: "3 \<le> length parts" using assms(2) dropVerb_length[of parts] by simp
  then have ne: "parts \<noteq> []" by auto
  have l: "4 \<le> length (parts @ [flag])" using len by simp
  have p: "prefix ''--'' flag" using assms(3) by (auto simp: recognizedFlags_iff)
  have d1: "dropVerb (parts @ [flag]) = ?b @ [flag]" using ne by (rule dropVerb_append)
  have n: "(?b @ ys) ! 0 = ?b ! 0" "(?b @ ys) ! 1 = ?b ! 1" "(?b @ ys) ! 2 = ?b ! 2" for ys
    using assms(2) by (auto simp: nth_append)
  obtain d where d: "parseQuickCommand_parts (parts @ [flag]) = Inr d"
    and fixed: "qp_alias d = ?b ! 0" "qp_contractAddress d = ?b ! 1" "qp_methodSignature d = ?b ! 2"
    using parseQuickCommand_parts_body[OF l] unfolding d1 n by simp
  from parseQuickCommand_parts_args[OF d] p have nf: "flag \<notin> set (qp_args d)"
    by (auto simp: list_all_iff)
  have dropped: "(qp_args d, qp_rpcUrl d, qp_options d) =
                 parseQuickCommand_loop (drop 3 ?b) [] None
                   \<lparr>gasLimit = None, gasPrice = None, txValue = None\<rparr> \<and>
              (4 \<le> length parts \<longrightarrow>
                 parseQuickCommand_parts (parts @ [flag]) = parseQuickCommand_parts parts)"
    if c: "drop 3 ?b = [] \<or> last parts \<notin> set recognizedFlags"
  proof -
    have w: "parseQuickCommand_parts (parts @ flag # []) =
       Inr \<lparr>qp_alias = ?b ! 0, qp_contractAddress = ?b ! 1, qp_methodSignature = ?b ! 2,
          qp_args = fst (parseQuickCommand_loop (drop 3 ?b @ []) [] None
                      \<lparr>gasLimit = None, gasPrice = None, txValue = None\<rparr>),
          qp_rpcUrl = fst (snd (parseQuickCommand_loop (drop 3 ?b @ []) [] None
                      \<lparr>gasLimit = None, gasPrice = None, txValue = None\<rparr>)),
          qp_options = snd (snd (parseQuickCommand_loop (drop 3 ?b @ []) [] None
                      \<lparr>gasLimit = None, gasPrice = None, txValue = None\<rparr>))\<rparr>"
      by (rule parseQuickCommand_parts_without[OF assms(2) c p]) simp
    have r: "parseQuickCommand_parts (parts @ flag # []) = parseQuickCommand_parts parts"
      if "4 \<le> length parts"
      using parseQuickCommand_parts_rest[OF assms(2), of "[]"] that w by simp
    from w d r show ?thesis by auto
  qed
  show ?thesis
    unfolding parseQuickCommand_def assms(1)
    using d fixed nf dropped by auto
qed

text \<open>
  A trailing \<open>--value\<close> as the only remaining token of an input without a verb, a
  trailing \<open>--gas-limit\<close> after one positional argument, and a trailing \<open>--value\<close>
  that the flag before it takes as its value.
\<close>

theorem parseQuickCommand_trailing_flag_witness:
  "parseCommandLine ''w c m --value'' = [''w'', ''c'', ''m''] @ [''--value''] \<and>
   parseQuickCommand ''w c m --value'' =
     Inr \<lparr>qp_alias = ''w'', qp_contractAddress = ''c'', qp_methodSignature = ''m'',
          qp_args = [], qp_rpcUrl = None,
          qp_options = \<lparr>gasLimit = None, gasPrice = None, txValue = None\<rparr>\<rparr> \<and>
   parseCommandLine ''call w c m 7 --gas-limit'' =
     [''call'', ''w'', ''c'', ''m'', ''7''] @ [''--gas-limit''] \<and>
   parseQuickCommand ''call w c m 7 --gas-limit'' =
     parseQuickCommand_parts [''call'', ''w'', ''c'', ''m'', ''7''] \<and>
   parseQuickCommand ''call w c m 7 --gas-limit'' =
     Inr \<lparr>qp_alias = ''w'', qp_contractAddress = ''c'', qp_methodSignature = ''m'',
          qp_args = [''7''], qp_rpcUrl = None,
          qp_options = \<lparr>gasLimit = None, gasPrice = None, txValue = None\<rparr>\<rparr> \<and>
   parseCommandLine ''call w c m --rpc-url --value'' =
     [''call'', ''w'', ''c'', ''m'', ''--rpc-url''] @ [''--value''] \<and>
   parseQuickCommand ''call w c m --rpc-url --value'' =
     Inr \<lparr>qp_alias = ''w'', qp_contractAddress = ''c'', qp_methodSignature = ''m'',
          qp_args = [], qp_rpcUrl = Some ''--value'',
          qp_options = \<lparr>gasLimit = None, gasPrice = None, txValue = None\<rparr>\<rparr>"
  using parseQuickCommand_trailing_flag[of "''w c m --value''" "[''w'', ''c'', ''m'']" "''--value''"]
    parseQuickCommand_trailing_flag[of "''call w c m 7 --gas-limit''"
      "[''call'', ''w'', ''c'', ''m'', ''7'']" "''--gas-limit''"]
    parseQuickCommand_trailing_flag[of "''call w c m --rpc-url --value''"
      "[''call'', ''w'', ''c'', ''m'', ''--rpc-url'']" "''--value''"]
  by (simp add: parseQuickCommand_def parseQuickCommand_parts_def recognizedFlags_def
        parseCommandLine_def dropVerb_def)

text \<open>
  Claim C5 as stated fails: with \<open>--rpc-url\<close> (or \<open>--value\<close>) as the final token and
  no value after it, the reconstruction succeeds.
\<close>

theorem parseQuickCommand_trailing_flag_counterexample:
  "parseCommandLine ''call w c m --rpc-url'' = [''call'', ''w'', ''c'', ''m'', ''--rpc-url''] \<and>
   parseQuickCommand ''call w c m --rpc-url'' =
     Inr \<lparr>qp_alias = ''w'', qp_contractAddress = ''c'', qp_methodSignature = ''m'',
          qp_args = [], qp_rpcUrl = None,
          qp_options = \<lparr>gasLimit = None, gasPrice = None, txValue = None\<rparr>\<rparr> \<and>
   parseQuickCommand ''call w c m 1 --value'' =
     Inr \<lparr>qp_alias = ''w'', qp_contractAddress = ''c'', qp_methodSignature = ''m'',
          qp_args = [''1''], qp_rpcUrl = None,
          qp_options = \<lparr>gasLimit = None, gasPrice = None, txValue = None\<rparr>\<rparr>"
  by (simp add: parseQuickCommand_def parseQuickCommand_parts_def parseCommandLine_def)

text \<open>
  Claim C6, as the code has it. A token that starts with \<open>--\<close> and is not one of
  the four recognized flags, among the tokens after the three fixed ones, that is
  the first of them or follows a token that is not a recognized flag (which would
  take it as its value), is discarded: it consumes no following token, sets no
  option and is not forwarded to the positional arguments. The descriptor has the
  three fixed tokens, and its positional arguments and options are those of the
  scan of the other remaining tokens, those before the token followed by those
  after it; when the other tokens are four or more, the result is that of the
  input without the token.
\<close>

theorem parseQuickCommand_unrecognized_flag:
  assumes "parseCommandLine command = pre @ t # post"
    and "3 \<le> length (dropVerb pre)"
    and "drop 3 (dropVerb pre) = [] \<or> last pre \<notin> set recognizedFlags"
    and "prefix ''--'' t" and "t \<notin> set recognizedFlags"
  shows "\<exists>d. parseQuickCommand command = Inr d \<and>
           qp_alias d = dropVerb pre ! 0 \<and>
           qp_contractAddress d = dropVerb pre ! 1 \<and>
           qp_methodSignature d = dropVerb pre ! 2 \<and>
           (qp_args d, qp_rpcUrl d, qp_options d) =
              parseQuickCommand_loop (drop 3 (dropVerb pre) @ post) [] None
                \<lparr>gasLimit = None, gasPrice = None, txValue = None\<rparr> \<and>
           t \<notin> set (qp_args d) \<and>
           (4 \<le> length (pre @ post) \<longrightarrow>
              parseQuickCommand command = parseQuickCommand_parts (pre @ post))"
proof -
  let ?b = "dropVerb pre"
  have w: "parseQuickCommand_parts (pre @ t # post) =
     Inr \<lparr>qp_alias = ?b ! 0, qp_contractAddress = ?b ! 1, qp_methodSignature = ?b ! 2,
          qp_args = fst (parseQuickCommand_loop (drop 3 ?b @ post) [] None
                      \<lparr>gasLimit = None, gasPrice = None, txValue = None\<rparr>),
          qp_rpcUrl = fst (snd (parseQuickCommand_loop (drop 3 ?b @ post) [] None
                      \<lparr>gasLimit = None, gasPrice = None, txValue = None\<rparr>)),
          qp_options = snd (snd (parseQuickCommand_loop (drop 3 ?b @ post) [] None
                      \<lparr>gasLimit = None, gasPrice = None, txValue = None\<rparr>))\<rparr>"
    (is "_ = Inr ?d")
    using assms(5) by (intro parseQuickCommand_parts_without[OF assms(2,3,4)]) simp
  from parseQuickCommand_parts_args[OF w] assms(4) have nt: "t \<notin> set (qp_args ?d)"
    by (auto simp: list_all_iff)
  have r: "parseQuickCommand_parts (pre @ t # post) = parseQuickCommand_parts (pre @ post)"
    if "4 \<le> length (pre @ post)"
    using parseQuickCommand_parts_rest[OF assms(2) that] w by simp
  show ?thesis
    unfolding parseQuickCommand_def assms(1)
    using w nt r by auto
qed

text \<open>
  The example of the specification: the positional arguments are \<open>0xabc\<close> and
  \<open>1000\<close>, and \<open>rpcUrl\<close> is \<open>http://x\<close>. Then \<open>--wait\<close> as the only remaining token
  of an input without a verb, and \<open>--wait\<close> followed by a positional argument and a
  flag with its value, which are read as they are without it.
\<close>

theorem parseQuickCommand_unrecognized_flag_witness:
  "parseCommandLine
     ''call my-wallet token-alias \"transfer(address,uint256)\" 0xabc 1000 --rpc-url http://x --wait'' =
     [''call'', ''my-wallet'', ''token-alias'', ''transfer(address,uint256)'', ''0xabc'', ''1000'',
      ''--rpc-url'', ''http://x''] @ ''--wait'' # [] \<and>
   parseQuickCommand
     ''call my-wallet token-alias \"transfer(address,uint256)\" 0xabc 1000 --rpc-url http://x --wait'' =
     parseQuickCommand_parts
       [''call'', ''my-wallet'', ''token-alias'', ''transfer(address,uint256)'', ''0xabc'', ''1000'',
        ''--rpc-url'', ''http://x''] \<and>
   parseQuickCommand
     ''call my-wallet token-alias \"transfer(address,uint256)\" 0xabc 1000 --rpc-url http://x --wait'' =
     Inr \<lparr>qp_alias = ''my-wallet'', qp_contractAddress = ''token-alias'',
          qp_methodSignature = ''transfer(address,uint256)'',
          qp_args = [''0xabc'', ''1000''], qp_rpcUrl = Some ''http://x'',
          qp_options = \<lparr>gasLimit = None, gasPrice = None, txValue = None\<rparr>\<rparr> \<and>
   parseCommandLine ''w c m --wait'' = [''w'', ''c'', ''m''] @ ''--wait'' # [] \<and>
   parseQuickCommand ''w c m --wait'' =
     Inr \<lparr>qp_alias = ''w'', qp_contractAddress = ''c'', qp_methodSignature = ''m'',
          qp_args = [], qp_rpcUrl = None,
          qp_options = \<lparr>gasLimit = None, gasPrice = None, txValue = None\<rparr>\<rparr> \<and>
   parseCommandLine ''send w c m 1 --wait 5 --value 9'' =
     [''send'', ''w'', ''c'', ''m'', ''1''] @ ''--wait'' # [''5'', ''--value'', ''9''] \<and>
   parseQuickCommand ''send w c m 1 --wait 5 --value 9'' =
     Inr \<lparr>qp_alias = ''w'', qp_contractAddress = ''c'', qp_methodSignature = ''m'',
          qp_args = [''1'', ''5''], qp_rpcUrl = None,
          qp_options = \<lparr>gasLimit = None, gasPrice = None, txValue = Some ''9''\<rparr>\<rparr>"
  using parseQuickCommand_unrecognized_flag[of
      "''call my-wallet token-alias \"transfer(address,uint256)\" 0xabc 1000 --rpc-url http://x --wait''"
      "[''call'', ''my-wallet'', ''token-alias'', ''transfer(address,uint256)'', ''0xabc'', ''1000'',
        ''--rpc-url'', ''http://x'']" "''--wait''" "[]"]
    parseQuickCommand_unrecognized_flag[of "''w c m --wait''" "[''w'', ''c'', ''m'']" "''--wait''" "[]"]
    parseQuickCommand_unrecognized_flag[of "''send w c m 1 --wait 5 --value 9''"
      "[''send'', ''w'', ''c'', ''m'', ''1'']" "''--wait''" "[''5'', ''--value'', ''9'']"]
  by (simp add: parseQuickCommand_def parseQuickCommand_parts_def parseCommandLine_def
        recognizedFlags_def dropVerb_def)

text \<open>
  Claim C6 as stated fails on its own example: \<open>--wait\<close> is not the third positional
  argument.
\<close>

theorem parseQuickCommand_unrecognized_flag_counterexample:
  "parseQuickCommand
     ''call my-wallet token-alias \"transfer(address,uint256)\" 0xabc 1000 --rpc-url http://x --wait'' =
     Inr \<lparr>qp_alias = ''my-wallet'', qp_contractAddress = ''token-alias'',
          qp_methodSignature = ''transfer(address,uint256)'',
          qp_args = [''0xabc'', ''1000''], qp_rpcUrl = Some ''http://x'',
          qp_options = \<lparr>gasLimit = None, gasPrice = None, txValue = None\<rparr>\<rparr> \<and>
   [''0xabc'', ''1000''] \<noteq> [''0xabc'', ''1000'', ''--wait'']"
  by (simp add: parseQuickCommand_def parseQuickCommand_parts_def parseCommandLine_def)

section \<open>Registries: theorems\<close>

lemma addContract_rejects:
  "\<not> (prefix ''0x'' a \<and> length a = 42) \<Longrightarrow>
   addContract alias a opts clock file = (Some InvalidContractAddressFormat, file)"
  by (cases clock) (auto simp: addContract_def)

lemma assignKey_stored:
  "key \<noteq> ''__proto__'' \<or> obj key \<noteq> None \<Longrightarrow> assignKey obj key v = obj(key \<mapsto> v)"
  unfolding assignKey_def by (rule if_not_P) blast

lemma addContract_accepts:
  "prefix ''0x'' a \<Longrightarrow> length a = 42 \<Longrightarrow>
   addContract alias a opts (tc, tu, ts) file =
     (None,
      file\<lparr>contracts := assignKey (contracts file) alias
          \<lparr>c_alias = alias, c_address = a, c_name = o_name opts,
           c_description = o_description opts, c_network = o_network opts,
           c_abi = o_abi opts, c_createdAt = tc, c_updatedAt = tu\<rparr>,
        cf_updatedAt := ts\<rparr>)"
  by (simp add: addContract_def saveContracts_def)

lemma updateContract_rejects:
  "contracts file alias = Some old \<Longrightarrow> a \<noteq> [] \<Longrightarrow> \<not> (prefix ''0x'' a \<and> length a = 42) \<Longrightarrow>
   updateContract alias (updates\<lparr>u_address := Some a\<rparr>) clock file =
     (Inl InvalidContractAddressFormat, file)"
  by (cases clock) (auto simp: updateContract_def)

lemma updateContract_accepts:
  "contracts file alias = Some old \<Longrightarrow> prefix ''0x'' a \<Longrightarrow> length a = 42 \<Longrightarrow>
   updateContract alias (updates\<lparr>u_address := Some a\<rparr>) (tu, ts) file =
     (Inr True,
      file\<lparr>contracts := (contracts file)(alias \<mapsto>
          applyUpdates old (updates\<lparr>u_address := Some a\<rparr>) tu),
        cf_updatedAt := ts\<rparr>)"
  by (simp add: updateContract_def saveContracts_def assignKey_stored)

lemma isHexAddress_format: "isHexAddress a \<Longrightarrow> prefix ''0x'' a \<and> length a = 42"
  by (simp add: isHexAddress_def)

text \<open>
  Claim C7, as the code has it. The validation tests the prefix \<open>0x\<close> and the length
  42 and nothing else. \<open>addContract\<close> rejects an address exactly when it fails that
  test, and then the document is unchanged; \<open>updateContract\<close> of an existing entry
  with a non-empty new address does the same. Every address of the hexadecimal
  form is accepted by both. Accepted by \<open>updateContract\<close>, it becomes the address
  of the entry; accepted by \<open>addContract\<close>, it is the address of the entry written
  under the alias, unless the alias is \<open>__proto__\<close> and the document has no such
  key, for which nothing is written.
\<close>

theorem address_validation:
  "(fst (addContract alias a opts clock file) = Some InvalidContractAddressFormat
      \<longleftrightarrow> \<not> (prefix ''0x'' a \<and> length a = 42)) \<and>
   (\<not> (prefix ''0x'' a \<and> length a = 42) \<longrightarrow>
      addContract alias a opts clock file = (Some InvalidContractAddressFormat, file)) \<and>
   (contracts file alias \<noteq> None \<and> a \<noteq> [] \<longrightarrow>
      (fst (updateContract alias (updates\<lparr>u_address := Some a\<rparr>) clock2 file)
           = Inl InvalidContractAddressFormat
         \<longleftrightarrow> \<not> (prefix ''0x'' a \<and> length a = 42)) \<and>
      (\<not> (prefix ''0x'' a \<and> length a = 42) \<longrightarrow>
         updateContract alias (updates\<lparr>u_address := Some a\<rparr>) clock2 file
           = (Inl InvalidContractAddressFormat, file))) \<and>
   (isHexAddress a \<longrightarrow>
      fst (addContract alias a opts clock file) = None \<and>
      (alias \<noteq> ''__proto__'' \<or> contracts file alias \<noteq> None \<longrightarrow>
         map_option c_address (contracts (snd (addContract alias a opts clock file)) alias)
           = Some a) \<and>
      (contracts file alias \<noteq> None \<longrightarrow>
         fst (updateContract alias (updates\<lparr>u_address := Some a\<rparr>) clock2 file) = Inr True \<and>
         map_option c_address
           (contracts (snd (updateContract alias (updates\<lparr>u_address := Some a\<rparr>) clock2 file)) alias)
           = Some a))"
proof -
  obtain tc tu ts where c: "clock = (tc, tu, ts)" by (cases clock) auto
  obtain tu2 ts2 where c2: "clock2 = (tu2, ts2)" by (cases clock2) auto
  show ?thesis
  proof (cases "prefix ''0x'' a \<and> length a = 42")
    case True
    then have p: "prefix ''0x'' a" and l: "length a = 42" by simp_all
    have ne: "a \<noteq> []" using l by auto
    show ?thesis
      using True ne addContract_accepts[OF p l, of "alias" "opts" "tc" "tu" "ts" "file"]
        updateContract_accepts[OF _ p l, of "file" "alias" _ "updates" "tu2" "ts2"]
      by (auto simp: c c2 applyUpdates_def assignKey_stored)
  next
    case False
    then have h: "\<not> isHexAddress a" using isHexAddress_format by blast
    show ?thesis
      using False h addContract_rejects[OF False, of "alias" "opts" "clock" "file"]
        updateContract_rejects[OF _ _ False, of "file" "alias" _ "updates" "clock2"]
      by auto
  qed
qed

lemma address_examples:
  "prefix ''0x'' addressA" "length addressA = 42" "isHexAddress addressA"
  "prefix ''0x'' addressB" "length addressB = 42" "isHexAddress addressB"
  "prefix ''0x'' addressZ" "length addressZ = 42" "\<not> isHexAddress addressZ"
  "addressA \<noteq> addressB" "addressA \<noteq> []" "addressB \<noteq> []" "addressZ \<noteq> []"
  "\<not> isHexAddress []"
  by (simp_all add: addressA_def addressB_def addressZ_def isHexAddress_def isHexChar_def
        list_all_iff)

text \<open>
  The alias \<open>__proto__\<close> on a document without that key: the address is accepted
  and no entry is written.
\<close>

lemma addContract_proto_absent:
  "fst (addContract ''__proto__'' addressB noOptions laterClock exampleContracts) = None \<and>
   contracts (snd (addContract ''__proto__'' addressB noOptions laterClock exampleContracts))
     = contracts exampleContracts"
  by (simp add: address_examples addContract_def saveContracts_def assignKey_def
        exampleContracts_def laterClock_def)

text \<open>A well-formed address is accepted and \<open>0x1234\<close> is rejected, by both operations.\<close>

theorem address_validation_witness:
  "fst (addContract ''dai'' addressB noOptions laterClock exampleContracts) = None \<and>
   map_option c_address
     (contracts (snd (addContract ''dai'' addressB noOptions laterClock exampleContracts)) ''dai'')
     = Some addressB \<and>
   fst (updateContract ''token'' (noUpdates\<lparr>u_address := Some addressB\<rparr>)
          (''t1'', ''t2'') exampleContracts) = Inr True \<and>
   addContract ''dai'' ''0x1234'' noOptions laterClock exampleContracts
     = (Some InvalidContractAddressFormat, exampleContracts) \<and>
   updateContract ''token'' (noUpdates\<lparr>u_address := Some ''0x1234''\<rparr>)
          (''t1'', ''t2'') exampleContracts
     = (Inl InvalidContractAddressFormat, exampleContracts)"
  using address_validation[of "''dai''" addressB noOptions laterClock exampleContracts
          noUpdates "(''t1'', ''t2'')"]
    address_validation[of "''token''" addressB noOptions laterClock exampleContracts
          noUpdates "(''t1'', ''t2'')"]
    address_validation[of "''dai''" "''0x1234''" noOptions laterClock exampleContracts
          noUpdates "(''t1'', ''t2'')"]
    address_validation[of "''token''" "''0x1234''" noOptions laterClock exampleContracts
          noUpdates "(''t1'', ''t2'')"]
  by (simp add: address_examples exampleContracts_def)

text \<open>
  Claim C7 as stated fails: \<open>0x\<close> followed by forty \<open>z\<close> is not of the hexadecimal
  form and is accepted by \<open>addContract\<close> and by \<open>updateContract\<close>; and the empty
  string, which skips the validation of \<open>updateContract\<close>, becomes the address of
  the entry.
\<close>

theorem address_validation_counterexample:
  "\<not> isHexAddress addressZ \<and>
   fst (addContract ''dai'' addressZ noOptions laterClock exampleContracts) = None \<and>
   map_option c_address
     (contracts (snd (addContract ''dai'' addressZ noOptions laterClock exampleContracts)) ''dai'')
     = Some addressZ \<and>
   fst (updateContract ''token'' (noUpdates\<lparr>u_address := Some addressZ\<rparr>)
          (''t1'', ''t2'') exampleContracts) = Inr True \<and>
   map_option c_address
     (contracts (snd (updateContract ''token'' (noUpdates\<lparr>u_address := Some addressZ\<rparr>)
          (''t1'', ''t2'') exampleContracts)) ''token'')
     = Some addressZ \<and>
   \<not> isHexAddress [] \<and>
   fst (updateContract ''token'' (noUpdates\<lparr>u_address := Some []\<rparr>)
          (''t1'', ''t2'') exampleContracts) = Inr True \<and>
   map_option c_address
     (contracts (snd (updateContract ''token'' (noUpdates\<lparr>u_address := Some []\<rparr>)
          (''t1'', ''t2'') exampleContracts)) ''token'')
     = Some []"
  by (simp add: address_examples addContract_def updateContract_def saveContracts_def
        applyUpdates_def exampleContracts_def laterClock_def noUpdates_def assignKey_def)

text \<open>
  Claim C3, as the code has it. Neither manager looks for the key before it
  writes. \<open>addContract\<close> under a key already present replaces the entry by the new
  one when the address passes the format test, and is rejected with the format
  error, the document unchanged, when it does not; \<open>addQuickCommand\<close> under a name
  already present replaces the template. The entries under the other keys are as
  before.
\<close>

theorem add_existing_key_replaces:
  "(contracts file k \<noteq> None \<and> prefix ''0x'' a \<and> length a = 42 \<longrightarrow>
      (\<exists>file'. addContract k a opts (tc, tu, ts) file = (None, file') \<and>
         contracts file' k =
           Some \<lparr>c_alias = k, c_address = a, c_name = o_name opts,
                 c_description = o_description opts, c_network = o_network opts,
                 c_abi = o_abi opts, c_createdAt = tc, c_updatedAt = tu\<rparr> \<and>
         (\<forall>k'. k' \<noteq> k \<longrightarrow> contracts file' k' = contracts file k'))) \<and>
   (contracts file k \<noteq> None \<and> \<not> (prefix ''0x'' a \<and> length a = 42) \<longrightarrow>
      addContract k a opts (tc, tu, ts) file = (Some InvalidContractAddressFormat, file)) \<and>
   (commands qfile n \<noteq> None \<longrightarrow>
      commands (addQuickCommand n ps t d (tc, tu, ts) qfile) n =
        Some \<lparr>qc_name = n, qc_parameters = ps, qc_template = t, qc_description = d,
              qc_createdAt = tc, qc_updatedAt = tu\<rparr> \<and>
      (\<forall>n'. n' \<noteq> n \<longrightarrow>
         commands (addQuickCommand n ps t d (tc, tu, ts) qfile) n' = commands qfile n'))"
  by (auto simp: addContract_def saveContracts_def addQuickCommand_def saveQuickCommands_def
        assignKey_stored)

text \<open>Adding \<open>token\<close> and \<open>mint\<close> a second time.\<close>

theorem add_existing_key_replaces_witness:
  "contracts exampleContracts ''token'' = Some exampleEntry \<and>
   fst (addContract ''token'' addressB noOptions (''t1'', ''t2'', ''t3'') exampleContracts) = None \<and>
   contracts (snd (addContract ''token'' addressB noOptions (''t1'', ''t2'', ''t3'') exampleContracts))
      ''token'' =
     Some \<lparr>c_alias = ''token'', c_address = addressB, c_name = None,
           c_description = None, c_network = None, c_abi = None,
           c_createdAt = ''t1'', c_updatedAt = ''t2''\<rparr> \<and>
   addContract ''token'' ''0x1234'' noOptions (''t1'', ''t2'', ''t3'') exampleContracts
     = (Some InvalidContractAddressFormat, exampleContracts) \<and>
   commands exampleQuickCommands ''mint'' = Some mintCommand \<and>
   commands (addQuickCommand ''mint'' [''n''] ''call w c m $n'' None (''t1'', ''t2'', ''t3'')
               exampleQuickCommands) ''mint'' =
     Some \<lparr>qc_name = ''mint'', qc_parameters = [''n''], qc_template = ''call w c m $n'',
           qc_description = None, qc_createdAt = ''t1'', qc_updatedAt = ''t2''\<rparr>"
  using add_existing_key_replaces[of exampleContracts "''token''" addressB noOptions
          "''t1''" "''t2''" "''t3''" exampleQuickCommands "''mint''" "[''n'']" "''call w c m $n''" None]
    add_existing_key_replaces[of exampleContracts "''token''" "''0x1234''" noOptions
          "''t1''" "''t2''" "''t3''" exampleQuickCommands "''mint''" "[''n'']" "''call w c m $n''" None]
  by (auto simp: address_examples exampleContracts_def exampleQuickCommands_def noOptions_def)

text \<open>
  Claim C3 as stated fails: adding \<open>token\<close> again with another address raises no
  error and the entry under \<open>token\<close> is no longer the one that was there, and the same
  for the template \<open>mint\<close>.
\<close>

theorem add_existing_key_counterexample:
  "contracts exampleContracts ''token'' = Some exampleEntry \<and>
   fst (addContract ''token'' addressB noOptions laterClock exampleContracts) = None \<and>
   contracts (snd (addContract ''token'' addressB noOptions laterClock exampleContracts)) ''token''
     \<noteq> Some exampleEntry \<and>
   commands exampleQuickCommands ''mint'' = Some mintCommand \<and>
   commands (addQuickCommand ''mint'' [''n''] ''call w c m $n'' None laterClock
               exampleQuickCommands) ''mint''
     \<noteq> Some mintCommand"
  by (simp add: address_examples addContract_def saveContracts_def addQuickCommand_def
        saveQuickCommands_def exampleContracts_def exampleQuickCommands_def laterClock_def
        exampleEntry_def mintCommand_def assignKey_def)

section \<open>Template registry and expander: theorems\<close>

lemma placeholderOccurrences_Nil: "placeholderOccurrences [] = []"
  by (simp add: placeholderOccurrences_def)

lemma placeholderOccurrences_Cons:
  "placeholderOccurrences (c # cs) =
     (if c = dollar \<and> cs \<noteq> [] \<and> isIdentStart (hd cs) then [takeWhile isIdentChar cs] else [])
     @ placeholderOccurrences cs"
proof -
  have u: "[0..<length (c # cs)] = 0 # map Suc [0..<length cs]"
    by (simp add: upt_conv_Cons map_Suc_upt del: upt_Suc)
  have h: "cs \<noteq> [] \<Longrightarrow> cs ! 0 = hd cs"
    by (cases cs) simp_all
  show ?thesis
    unfolding placeholderOccurrences_def u
    by (simp add: h comp_def del: upt_Suc cong: if_cong)
qed

lemma isIdentChar_not_dollar: "isIdentChar c \<Longrightarrow> c \<noteq> dollar"
  by (auto simp: isIdentChar_def Let_def)

lemma placeholderOccurrences_dropWhile:
  "placeholderOccurrences (dropWhile isIdentChar cs) = placeholderOccurrences cs"
  by (induction cs) (auto simp: placeholderOccurrences_Cons dest: isIdentChar_not_dollar)

lemma set_firstOccurrences: "set (firstOccurrences xs) = set xs"
  by (induction xs) auto

lemma distinct_firstOccurrences: "distinct (firstOccurrences xs)"
  by (induction xs) (auto simp: set_firstOccurrences)

text \<open>
  The loop, started with the parameters found so far (\<open>seen\<close> being their set),
  appends the first occurrences of the identifiers of the rest of the text that are
  not among them.
\<close>

lemma parseParameters_loop_spec:
  "seen = set parameters \<Longrightarrow>
   parseParameters_loop s parameters seen =
     parameters @ filter (\<lambda>y. y \<notin> set parameters) (firstOccurrences (placeholderOccurrences s))"
proof (induction s parameters seen rule: parseParameters_loop.induct)
  case (1 parameters seen)
  show ?case by (simp add: placeholderOccurrences_Nil)
next
  case (2 c cs parameters seen)
  let ?p = "takeWhile isIdentChar cs" and ?r = "dropWhile isIdentChar cs"
  show ?case
  proof (cases "c = dollar \<and> cs \<noteq> [] \<and> isIdentStart (hd cs)")
    case m: True
    then have occ: "placeholderOccurrences (c # cs) = ?p # placeholderOccurrences ?r"
      by (simp add: placeholderOccurrences_Cons placeholderOccurrences_dropWhile)
    show ?thesis
    proof (cases "?p \<in> seen")
      case True
      have "parseParameters_loop (c # cs) parameters seen = parseParameters_loop ?r parameters seen"
        using m True by simp
      also have "\<dots> = parameters @ filter (\<lambda>y. y \<notin> set parameters)
                          (firstOccurrences (placeholderOccurrences ?r))"
        using 2(2)[OF m _ 2(4)] True by simp
      also have "\<dots> = parameters @ filter (\<lambda>y. y \<notin> set parameters)
                          (firstOccurrences (placeholderOccurrences (c # cs)))"
        using True 2(4) unfolding occ
        by (auto intro!: filter_cong)
      finally show ?thesis .
    next
      case False
      have s: "insert ?p seen = set (parameters @ [?p])" using 2(4) by simp
      have "parseParameters_loop (c # cs) parameters seen =
              parseParameters_loop ?r (parameters @ [?p]) (insert ?p seen)"
        using m False by simp
      also have "\<dots> = (parameters @ [?p]) @ filter (\<lambda>y. y \<notin> set (parameters @ [?p]))
                          (firstOccurrences (placeholderOccurrences ?r))"
        using 2(1)[OF m False s] .
      also have "\<dots> = parameters @ filter (\<lambda>y. y \<notin> set parameters)
                          (firstOccurrences (placeholderOccurrences (c # cs)))"
        using False 2(4) unfolding occ
        by (auto intro!: filter_cong)
      finally show ?thesis .
    qed
  next
    case False
    then have occ: "placeholderOccurrences (c # cs) = placeholderOccurrences cs"
      by (simp add: placeholderOccurrences_Cons)
    have "parseParameters_loop (c # cs) parameters seen = parseParameters_loop cs parameters seen"
      using False by auto
    with 2(3)[OF False 2(4)] occ show ?thesis by simp
  qed
qed

text \<open>
  Claim C9. Parameter detection returns the identifiers that follow a sigil in the
  body (an identifier being the longest run of letters, digits and underscores
  after the sigil, its first character not a digit), each listed once, in the
  order of their first occurrences.
\<close>

theorem parseParametersFromTemplate_spec:
  "parseParametersFromTemplate body = detectParameters_spec body \<and>
   distinct (parseParametersFromTemplate body) \<and>
   set (parseParametersFromTemplate body) = set (placeholderOccurrences body)"
  using parseParameters_loop_spec[of "{}" "[]" body]
  by (simp add: parseParametersFromTemplate_def detectParameters_spec_def
        set_firstOccurrences distinct_firstOccurrences)

text \<open>
  The example of the specification, and the same body with two identifiers
  repeated.
\<close>

theorem parseParametersFromTemplate_spec_witness:
  "parseParametersFromTemplate ''call $w $addr \"m($x)\"'' = [''w'', ''addr'', ''x''] \<and>
   detectParameters_spec ''call $w $addr \"m($x)\"'' = [''w'', ''addr'', ''x''] \<and>
   parseParametersFromTemplate ''call $w $addr \"m($x)\" $addr $w'' = [''w'', ''addr'', ''x''] \<and>
   placeholderOccurrences ''call $w $addr \"m($x)\" $addr $w''
     = [''w'', ''addr'', ''x'', ''addr'', ''w'']"
  using parseParametersFromTemplate_spec[of "''call $w $addr \"m($x)\"''"]
    parseParametersFromTemplate_spec[of "''call $w $addr \"m($x)\" $addr $w''"]
  by (simp add: parseParametersFromTemplate_def detectParameters_spec_def
        placeholderOccurrences_Cons placeholderOccurrences_Nil isIdentStart_def isIdentChar_def)

lemma splitPlaceholder_not_Nil: "splitPlaceholder param s \<noteq> []"
  by (induction param s rule: splitPlaceholder.induct) (auto elim: attach.elims)

lemma joinWith_Nil_Cons: "ps \<noteq> [] \<Longrightarrow> joinWith v ([] # ps) = v @ joinWith v ps"
  by (cases ps) simp_all

lemma joinWith_attach: "ps \<noteq> [] \<Longrightarrow> joinWith v (attach [c] ps) = c # joinWith v ps"
proof (cases ps)
  case (Cons q qs)
  then show ?thesis by (cases qs) simp_all
qed simp

lemma getSubstitution_plain:
  "plainValue v \<Longrightarrow> getSubstitution matched textBefore textAfter v = v"
  by (induction matched textBefore textAfter v rule: getSubstitution.induct) auto

lemma replacePlaceholder_plain:
  "plainValue v \<Longrightarrow>
   replacePlaceholder param v textBefore s = joinWith v (splitPlaceholder param s)"
  by (induction param v textBefore s rule: replacePlaceholder.induct)
     (simp_all add: getSubstitution_plain joinWith_Nil_Cons joinWith_attach
        splitPlaceholder_not_Nil)

lemma replaceParameters_passes:
  "\<forall>pv \<in> set pvs. \<not> list_ex regexSyntaxChar (fst pv) \<and> plainValue (snd pv) \<Longrightarrow>
   replaceParameters pvs s = Inr (foldl substitutePass s pvs)"
  by (induction pvs s rule: replaceParameters.induct)
     (simp_all add: substitutePass_def replacePlaceholder_plain)

text \<open>
  Claim C2, as the code has it. For parameter names without regular-expression
  syntax characters and argument values without replacement patterns, expansion is
  one pass per parameter, in the order of the parameters, each over the output of
  the pass before it; a pass cuts the text at the occurrences of the placeholder
  and joins the pieces with the value, which it does not look into. A value
  inserted by one pass is therefore scanned by the passes of the later parameters,
  and by no other; in particular a template that is one placeholder (of a single
  parameter) expands to the value as it is, whatever placeholder the value
  contains.
\<close>

theorem executeQuickCommand_passes:
  assumes "commands file name = Some command"
    and "length args = length (qc_parameters command)"
    and "\<forall>p \<in> set (qc_parameters command). \<not> list_ex regexSyntaxChar p"
    and "\<forall>v \<in> set args. plainValue v"
  shows "executeQuickCommand name args file =
           Inr (foldl substitutePass (qc_template command) (zip (qc_parameters command) args)) \<and>
         (\<forall>p v. qc_parameters command = [p] \<and> qc_template command = dollar # p \<and> args = [v]
            \<longrightarrow> executeQuickCommand name args file = Inr v)"
proof -
  have "\<forall>pv \<in> set (zip (qc_parameters command) args).
          \<not> list_ex regexSyntaxChar (fst pv) \<and> plainValue (snd pv)"
    using assms(3,4) by (auto dest: set_zip_leftD set_zip_rightD)
  from replaceParameters_passes[OF this] assms(1,2)
  have e: "executeQuickCommand name args file =
           Inr (foldl substitutePass (qc_template command) (zip (qc_parameters command) args))"
    by (simp add: executeQuickCommand_def)
  have "substitutePass (dollar # p) (p, v) = v" for p v
    by (simp add: substitutePass_def)
  with e show ?thesis by auto
qed

lemma commands_quickCommandsWith:
  "name \<noteq> ''__proto__'' \<Longrightarrow>
   commands (quickCommandsWith name parameters template) name =
     Some \<lparr>qc_name = name, qc_parameters = parameters, qc_template = template,
           qc_description = None, qc_createdAt = ''2024-02-02T00:00:00.000Z'',
           qc_updatedAt = ''2024-02-02T00:00:00.001Z''\<rparr>"
  by (simp add: quickCommandsWith_def addQuickCommand_def saveQuickCommands_def laterClock_def
        assignKey_stored)

text \<open>
  The value \<open>$a$b\<close> of the first parameter \<open>a\<close>: its \<open>$a\<close> is still there in the
  output, its \<open>$b\<close> has been replaced by the value of the second parameter. And
  the template \<open>$a\<close> with a value that contains \<open>$a\<close> twice.
\<close>

theorem executeQuickCommand_passes_witness:
  "executeQuickCommand ''pair'' [''$a$b'', ''X'']
     (quickCommandsWith ''pair'' [''a'', ''b''] ''call w c m $b:$a'') =
     Inr (foldl substitutePass ''call w c m $b:$a'' (zip [''a'', ''b''] [''$a$b'', ''X''])) \<and>
   foldl substitutePass ''call w c m $b:$a'' (zip [''a'', ''b''] [''$a$b'', ''X'']) =
     ''call w c m X:$aX'' \<and>
   executeQuickCommand ''self'' [''$a and $a'']
     (quickCommandsWith ''self'' [''a''] ''$a'') = Inr ''$a and $a''"
  using executeQuickCommand_passes[of "quickCommandsWith ''pair'' [''a'', ''b''] ''call w c m $b:$a''"
      "''pair''" _ "[''$a$b'', ''X'']", OF commands_quickCommandsWith]
    executeQuickCommand_passes[of "quickCommandsWith ''self'' [''a''] ''$a''"
      "''self''" _ "[''$a and $a'']", OF commands_quickCommandsWith]
  by (simp add: regexSyntaxChar_def substitutePass_def)

text \<open>
  Claim C2 as stated fails: the value \<open>$b\<close> of the first parameter does not survive,
  the pass of the second parameter \<open>b\<close> replaces it; and the value \<open>$$\<close> is not
  inserted as it is, but as one dollar sign.
\<close>

theorem executeQuickCommand_rescan_counterexample:
  "executeQuickCommand ''pair'' [''$b'', ''X'']
     (quickCommandsWith ''pair'' [''a'', ''b''] ''call w c m $a $b'') =
     Inr ''call w c m X X'' \<and>
   ''call w c m X X'' \<noteq> ''call w c m $b X'' \<and>
   executeQuickCommand ''one'' [''$$'']
     (quickCommandsWith ''one'' [''a''] ''call w c m $a'') =
     Inr ''call w c m $''"
  by (simp add: executeQuickCommand_def commands_quickCommandsWith regexSyntaxChar_def)

text \<open>
  Claim C1 at a template with the placeholders \<open>$amount\<close> and \<open>$amountMax\<close>.
  Detection finds the two parameters \<open>amount\<close> and \<open>amountMax\<close>; expansion with the
  values \<open>5\<close> and \<open>9\<close> gives \<open>5 5Max\<close>: the pass for \<open>amount\<close> has rewritten the
  first seven characters of \<open>$amountMax\<close>, and the value \<open>9\<close> is nowhere in the output.
\<close>

theorem executeQuickCommand_prefix_placeholder:
  "parseParametersFromTemplate cappedTemplate = [''amount'', ''amountMax''] \<and>
   executeQuickCommand ''capped'' [''5'', ''9'']
     (quickCommandsWith ''capped'' (parseParametersFromTemplate cappedTemplate) cappedTemplate) =
     Inr ''call w c m 5 5Max''"
proof -
  have p: "parseParametersFromTemplate cappedTemplate = [''amount'', ''amountMax'']"
    by (simp add: parseParametersFromTemplate_def cappedTemplate_def isIdentStart_def
          isIdentChar_def)
  show ?thesis
    unfolding p
    by (simp add: executeQuickCommand_def commands_quickCommandsWith regexSyntaxChar_def
          cappedTemplate_def)
qed

end
